theory Spec2Isabelle
  imports Complex_Main
begin

section \<open>Python strings, errors and the serial transport\<close>

text \<open>
  The embedding follows the two libraries of the repository: the class \<open>Zup\<close> of
  \<^verbatim>\<open>Zup.py\<close> and the multi-device functions \<open>ZUps_ON\<close>/\<open>ZUps_off\<close> of
  \<^verbatim>\<open>OldCode/ABT_ZUp.py\<close>.

  Modelling conventions.
  \<^item> A Python \<open>str\<close> is a \<open>string\<close>; device traffic is ASCII.
  \<^item> A Python \<open>float\<close> is the rational number it denotes (\<open>rat\<close>). The rounding
    error of float arithmetic, negative zero, infinities and NaN are not represented.
  \<^item> An exception is the \<open>Inl\<close> branch of the result; the text of its message is not
    modelled.
  \<^item> The pySerial object is a record: the ordered trace of what was written to it and
    of every \<open>time.sleep\<close> (in milliseconds), and the queue of lines the devices will
    answer. \<open>readline\<close> on an empty queue is the timeout that returns the empty string.
    Failures of the transport itself (a closed or vanished port) are outside the model.
\<close>

datatype error = TypeError | ValueError | KeyError | RuntimeError

datatype event = Write string | Sleep nat

record serial =
  port :: string
  baudrate :: int
  is_open :: bool
  trace :: "event list"
  incoming :: "string list"

text \<open>The class attribute \<open>Zup.listening_addresses\<close> is a dictionary shared by all objects.\<close>

record world = serial +
  listening_addresses :: "string \<rightharpoonup> int"

type_synonym ('s, 'a) io = "'s \<Rightarrow> (error + 'a) \<times> 's"

definition ret :: "'a \<Rightarrow> ('s, 'a) io" where
  "ret x = (\<lambda>s. (Inr x, s))"

definition raise :: "error \<Rightarrow> ('s, 'a) io" where
  "raise e = (\<lambda>s. (Inl e, s))"

definition bnd :: "('s, 'a) io \<Rightarrow> ('a \<Rightarrow> ('s, 'b) io) \<Rightarrow> ('s, 'b) io" where
  "bnd m f = (\<lambda>s. case m s of (Inl e, s') \<Rightarrow> (Inl e, s') | (Inr x, s') \<Rightarrow> f x s')"

text \<open>A \<open>for\<close> loop over a list, with and without a loop-carried variable.\<close>

fun for_each :: "('a \<Rightarrow> ('s, unit) io) \<Rightarrow> 'a list \<Rightarrow> ('s, unit) io" where
  "for_each body [] = ret ()"
| "for_each body (x # xs) = bnd (body x) (\<lambda>_. for_each body xs)"

fun for_acc :: "('a \<Rightarrow> 'b \<Rightarrow> ('s, 'b) io) \<Rightarrow> 'a list \<Rightarrow> 'b \<Rightarrow> ('s, 'b) io" where
  "for_acc body [] acc = ret acc"
| "for_acc body (x # xs) acc = bnd (body x acc) (\<lambda>acc'. for_acc body xs acc')"

definition sleep :: "nat \<Rightarrow> ('a serial_scheme, unit) io" where
  "sleep ms = (\<lambda>s. (Inr (), s\<lparr>trace := trace s @ [Sleep ms]\<rparr>))"

definition serial_write :: "string \<Rightarrow> ('a serial_scheme, unit) io" where
  "serial_write c = (\<lambda>s. (Inr (), s\<lparr>trace := trace s @ [Write c]\<rparr>))"

definition readline :: "('a serial_scheme, string) io" where
  "readline = (\<lambda>s. case incoming s of
                      [] \<Rightarrow> (Inr [], s)
                    | l # ls \<Rightarrow> (Inr l, s\<lparr>incoming := ls\<rparr>))"

definition serial_close :: "('a serial_scheme, unit) io" where
  "serial_close = (\<lambda>s. (Inr (), s\<lparr>is_open := False\<rparr>))"

text \<open>The commands written so far, in order, without the delays.\<close>

fun writes :: "event list \<Rightarrow> string list" where
  "writes [] = []"
| "writes (Write c # es) = c # writes es"
| "writes (Sleep d # es) = writes es"

subsection \<open>String operations of Python\<close>

definition CRLF :: string where
  "CRLF = [CHR 0x0D, CHR 0x0A]"

definition digit_char :: "nat \<Rightarrow> char" where
  "digit_char d = ''0123456789'' ! d"

fun show_nat :: "nat \<Rightarrow> string" where
  "show_nat n = (if n < 10 then [digit_char n] else show_nat (n div 10) @ [digit_char (n mod 10)])"

declare show_nat.simps [simp del]

definition show_int :: "int \<Rightarrow> string" where
  "show_int i = (if i < 0 then CHR ''-'' # show_nat (nat (- i)) else show_nat (nat i))"

text \<open>Right alignment in a field of a given width, as \<open>{:c>w}\<close> does with fill character \<open>c\<close>.\<close>

definition rjust :: "nat \<Rightarrow> char \<Rightarrow> string \<Rightarrow> string" where
  "rjust w c s = replicate (w - length s) c @ s"

text \<open>\<open>s.replace(old, new)\<close>: every non-overlapping occurrence, from the left.\<close>

function replace :: "string \<Rightarrow> string \<Rightarrow> string \<Rightarrow> string" where
  "replace s old new =
     (if old = [] then new @ concat (map (\<lambda>c. c # new) s)
      else if s = [] then []
      else if take (length old) s = old then new @ replace (drop (length old) s) old new
      else hd s # replace (tl s) old new)"
  by pat_completeness auto
termination
  by (relation "measure (\<lambda>(s, old, new). length s)") (auto simp: neq_Nil_conv)

declare replace.simps [simp del]

text \<open>\<open>s.index(c)\<close> raises \<open>ValueError\<close> when \<open>c\<close> does not occur.\<close>

fun index_of :: "string \<Rightarrow> char \<Rightarrow> nat option" where
  "index_of [] c = None"
| "index_of (x # xs) c = (if x = c then Some 0 else map_option Suc (index_of xs c))"

text \<open>\<open>s[i:j]\<close> for integer bounds; a negative bound counts from the end.\<close>

definition slice :: "string \<Rightarrow> int \<Rightarrow> int \<Rightarrow> string" where
  "slice s i j =
     (let n = int (length s);
          norm = (\<lambda>k. if k < 0 then max 0 (n + k) else min k n);
          a = nat (norm i); b = nat (norm j)
      in take (b - a) (drop a s))"

definition upper_char :: "char \<Rightarrow> char" where
  "upper_char c = (let k = of_char c :: nat in if 97 \<le> k \<and> k \<le> 122 then char_of (k - 32) else c)"

definition lower_char :: "char \<Rightarrow> char" where
  "lower_char c = (let k = of_char c :: nat in if 65 \<le> k \<and> k \<le> 90 then char_of (k + 32) else c)"

definition is_alpha :: "char \<Rightarrow> bool" where
  "is_alpha c = (let k = of_char c :: nat in (65 \<le> k \<and> k \<le> 90) \<or> (97 \<le> k \<and> k \<le> 122))"

definition upper :: "string \<Rightarrow> string" where
  "upper s = map upper_char s"

definition lower :: "string \<Rightarrow> string" where
  "lower s = map lower_char s"

text \<open>\<open>s.title()\<close>: a letter after a non-letter is upper-cased, any other letter lower-cased.\<close>

fun title_from :: "bool \<Rightarrow> string \<Rightarrow> string" where
  "title_from prev_cased [] = []"
| "title_from prev_cased (c # cs) =
     (if prev_cased then lower_char c else upper_char c) # title_from (is_alpha c) cs"

definition title :: "string \<Rightarrow> string" where
  "title s = title_from False s"

subsection \<open>Numbers: rounding, fixed-point rendering, parsing\<close>

text \<open>
  Python rounds a float to a number of decimals, in \<open>round\<close> as in the \<open>f\<close> format, from
  the exact value of the float and with ties going to the even neighbour.
\<close>

definition round_half_even :: "rat \<Rightarrow> int" where
  "round_half_even x =
     (let f = \<lfloor>x\<rfloor>; r = x - of_int f
      in if r < 1 / 2 then f else if 1 / 2 < r then f + 1 else if even f then f else f + 1)"

definition py_round :: "rat \<Rightarrow> nat \<Rightarrow> rat" where
  "py_round x ndigits = of_int (round_half_even (x * 10 ^ ndigits)) / 10 ^ ndigits"

text \<open>The presentation \<open>{:.pf}\<close>: sign, integer digits, and \<open>p\<close> decimals after the point.\<close>

definition fixed :: "nat \<Rightarrow> rat \<Rightarrow> string" where
  "fixed p x =
     (let n = nat (round_half_even (\<bar>x\<bar> * 10 ^ p));
          body = show_nat (n div 10 ^ p) @
                 (if p = 0 then [] else CHR ''.'' # rjust p CHR ''0'' (show_nat (n mod 10 ^ p)))
      in if x < 0 then CHR ''-'' # body else body)"

text \<open>A format string \<open>{:0>w.pf}\<close> of \<open>Zup.FORMATS\<close>, applied to a number.\<close>

record fmt =
  width :: nat
  prec :: nat

definition apply_format :: "fmt \<Rightarrow> rat \<Rightarrow> string" where
  "apply_format f x = rjust (width f) CHR ''0'' (fixed (prec f) x)"

text \<open>
  \<open>float(s)\<close> for the forms a supply sends: surrounding white space, an optional sign,
  digits with an optional decimal point. Anything else is the \<open>ValueError\<close> branch
  (\<open>None\<close>); exponents, \<open>inf\<close> and \<open>nan\<close>, which Python also reads, are not modelled.
\<close>

definition digit_val :: "char \<Rightarrow> nat option" where
  "digit_val c = (let k = of_char c :: nat in if 48 \<le> k \<and> k \<le> 57 then Some (k - 48) else None)"

fun digits_val :: "string \<Rightarrow> nat \<Rightarrow> nat option" where
  "digits_val [] acc = Some acc"
| "digits_val (c # cs) acc =
     (case digit_val c of None \<Rightarrow> None | Some d \<Rightarrow> digits_val cs (10 * acc + d))"

definition is_space :: "char \<Rightarrow> bool" where
  "is_space c = (let k = of_char c :: nat in k = 32 \<or> (9 \<le> k \<and> k \<le> 13))"

definition strip :: "string \<Rightarrow> string" where
  "strip s = rev (dropWhile is_space (rev (dropWhile is_space s)))"

definition py_float :: "string \<Rightarrow> rat option" where
  "py_float s =
     (let t = strip s;
          neg = (t \<noteq> [] \<and> hd t = CHR ''-'');
          u = (if t \<noteq> [] \<and> (hd t = CHR ''-'' \<or> hd t = CHR ''+'') then tl t else t);
          ip = takeWhile (\<lambda>c. c \<noteq> CHR ''.'') u;
          fp = drop (Suc (length ip)) u
      in if ip = [] \<and> fp = [] then None
         else case (digits_val ip 0, digits_val fp 0) of
                (Some a, Some b) \<Rightarrow>
                  Some ((if neg then - 1 else 1) * (of_nat a + of_nat b / 10 ^ length fp))
              | _ \<Rightarrow> None)"

definition to_float :: "string \<Rightarrow> ('s, rat) io" where
  "to_float s = (case py_float s of None \<Rightarrow> raise ValueError | Some x \<Rightarrow> ret x)"

definition str_index :: "string \<Rightarrow> char \<Rightarrow> ('s, nat) io" where
  "str_index s c = (case index_of s c of None \<Rightarrow> raise ValueError | Some i \<Rightarrow> ret i)"

definition dict_get :: "(string \<times> 'v) list \<Rightarrow> string \<Rightarrow> ('s, 'v) io" where
  "dict_get d k = (case map_of d k of None \<Rightarrow> raise KeyError | Some v \<Rightarrow> ret v)"

text \<open>An argument of a public method: Python does not type it, the methods test it.\<close>

datatype pyval = PyInt int | PyFloat rat | PyStr string | PyNone

fun number_of :: "pyval \<Rightarrow> rat option" where
  "number_of (PyInt i) = Some (of_int i)"
| "number_of (PyFloat x) = Some x"
| "number_of _ = None"

section \<open>Class Zup: addressing and transport\<close>

record limits =
  lim_min :: rat
  lim_MAX :: rat
  lim_Format :: fmt

text \<open>
  A \<open>Zup\<close> object. \<open>__init__\<close> sends commands through \<open>self\<close> when only the address
  (and the serial port, here the one port of the state) is set, so the address alone forms
  the base record and the four limit dictionaries extend it.
\<close>

record handle =
  address :: int

record zup = handle +
  CUR :: limits
  VOL :: limits
  OVP :: limits
  UVP :: limits

definition adr_command :: "int \<Rightarrow> string" where
  "adr_command a = '':ADR'' @ rjust 2 CHR ''0'' (show_int a) @ '';''"

definition write_command :: "'a handle_scheme \<Rightarrow> string \<Rightarrow> (world, unit) io" where
  "write_command self command =
     bnd (\<lambda>s. if listening_addresses s (port s) \<noteq> Some (address self)
              then bnd (\<lambda>s. (Inr (), s\<lparr>listening_addresses :=
                                         (listening_addresses s)(port s \<mapsto> address self)\<rparr>)) (\<lambda>_.
                   bnd (sleep 15) (\<lambda>_.
                   bnd (serial_write (adr_command (address self))) (\<lambda>_.
                   sleep 35))) s
              else ret () s) (\<lambda>_.
     bnd (serial_write command) (\<lambda>_.
     sleep 20))"

definition read_response :: "(world, string) io" where
  "read_response = bnd readline (\<lambda>rl. ret (replace rl CRLF []))"

subsection \<open>Binary-state queries\<close>

definition power_on :: "'a handle_scheme \<Rightarrow> (world, bool) io" where
  "power_on self = bnd (write_command self '':OUT?;'') (\<lambda>_.
                   bnd read_response (\<lambda>r. ret (r = ''OT1'')))"

definition autostart_on :: "'a handle_scheme \<Rightarrow> (world, bool) io" where
  "autostart_on self = bnd (write_command self '':AST?;'') (\<lambda>_.
                       bnd read_response (\<lambda>r. ret (r = ''AS1'')))"

definition foldback_on :: "'a handle_scheme \<Rightarrow> (world, bool) io" where
  "foldback_on self = bnd (write_command self '':FLD?;'') (\<lambda>_.
                      bnd read_response (\<lambda>r. ret (r = ''FD1'')))"

definition remote_latched :: "'a handle_scheme \<Rightarrow> (world, bool) io" where
  "remote_latched self = bnd (write_command self '':RMT?;'') (\<lambda>_.
                         bnd read_response (\<lambda>r. ret (r = ''RM2'')))"

definition service_request_over_voltage_on :: "'a handle_scheme \<Rightarrow> (world, bool) io" where
  "service_request_over_voltage_on self =
     bnd (write_command self '':SRV?;'') (\<lambda>_.
     bnd read_response (\<lambda>r. ret (r = '':QV1;'')))"

definition service_request_over_temperature_on :: "'a handle_scheme \<Rightarrow> (world, bool) io" where
  "service_request_over_temperature_on self =
     bnd (write_command self '':SRT?;'') (\<lambda>_.
     bnd read_response (\<lambda>r. ret (r = '':QT1;'')))"

definition service_request_foldback_on :: "'a handle_scheme \<Rightarrow> (world, bool) io" where
  "service_request_foldback_on self =
     bnd (write_command self '':SRF?;'') (\<lambda>_.
     bnd read_response (\<lambda>r. ret (r = '':QF1;'')))"

subsection \<open>The catalog tables\<close>

text \<open>
  The key \<open>'L.T'\<close> of \<open>FORMATS\<close> is the pair \<open>(L, T)\<close> of leading and trailing digit
  counts; the format string \<open>{:0>w.pf}\<close> is its width \<open>w\<close> and precision \<open>p\<close>.
\<close>

definition FORMATS :: "(nat \<times> nat) \<rightharpoonup> fmt" where
  "FORMATS = map_of
     [((1, 2), \<lparr>width = 4, prec = 2\<rparr>),
      ((1, 3), \<lparr>width = 5, prec = 3\<rparr>),
      ((1, 4), \<lparr>width = 6, prec = 4\<rparr>),
      ((2, 1), \<lparr>width = 4, prec = 1\<rparr>),
      ((2, 2), \<lparr>width = 5, prec = 2\<rparr>),
      ((2, 3), \<lparr>width = 6, prec = 3\<rparr>),
      ((3, 1), \<lparr>width = 5, prec = 1\<rparr>),
      ((3, 2), \<lparr>width = 6, prec = 2\<rparr>)]"

definition entry :: "rat \<Rightarrow> rat \<Rightarrow> nat \<times> nat \<Rightarrow> limits" where
  "entry lo hi k = \<lparr>lim_min = lo, lim_MAX = hi, lim_Format = the (FORMATS k)\<rparr>"

definition VOLs :: "(string \<times> limits) list" where
  "VOLs =
     [(''ZUP6-XY'',   entry 0 (63 / 10) (1, 3)),
      (''ZUP10-XY'',  entry 0 (105 / 10) (2, 3)),
      (''ZUP20-XY'',  entry 0 21 (2, 3)),
      (''ZUP36-XY'',  entry 0 (378 / 10) (2, 2)),
      (''ZUP60-XY'',  entry 0 63 (2, 2)),
      (''ZUP80-XY'',  entry 0 84 (2, 2)),
      (''ZUP120-XY'', entry 0 126 (3, 2))]"

definition CURs :: "(string \<times> limits) list" where
  "CURs =
     [(''ZUP6-33'',    entry 0 (3465 / 100) (2, 2)),
      (''ZUP6-66'',    entry 0 (693 / 10) (2, 2)),
      (''ZUP6-132'',   entry 0 (1386 / 10) (3, 2)),
      (''ZUP10-20'',   entry 0 21 (2, 3)),
      (''ZUP10-40'',   entry 0 42 (2, 2)),
      (''ZUP10-80'',   entry 0 84 (2, 2)),
      (''ZUP20-10'',   entry 0 (105 / 10) (2, 3)),
      (''ZUP20-20'',   entry 0 21 (2, 3)),
      (''ZUP20-40'',   entry 0 42 (2, 2)),
      (''ZUP36-6'',    entry 0 (63 / 10) (1, 3)),
      (''ZUP36-12'',   entry 0 (126 / 10) (2, 3)),
      (''ZUP36-24'',   entry 0 (252 / 10) (2, 3)),
      (''ZUP60-3.5'',  entry 0 (3675 / 1000) (1, 3)),
      (''ZUP60-7'',    entry 0 (735 / 100) (1, 3)),
      (''ZUP60-14'',   entry 0 (147 / 10) (2, 3)),
      (''ZUP80-2.5'',  entry 0 (2625 / 1000) (1, 4)),
      (''ZUP80-5'',    entry 0 (525 / 100) (1, 3)),
      (''ZUP120-1.8'', entry 0 (189 / 100) (1, 4)),
      (''ZUP120-3.6'', entry 0 (378 / 100) (1, 3))]"

definition OVPs :: "(string \<times> limits) list" where
  "OVPs =
     [(''ZUP6-XY'',   entry (2 / 10) (75 / 10) (1, 2)),
      (''ZUP10-XY'',  entry (5 / 10) 13 (2, 1)),
      (''ZUP20-XY'',  entry 1 24 (2, 1)),
      (''ZUP36-XY'',  entry (8 / 10) 40 (2, 1)),
      (''ZUP60-XY'',  entry 3 66 (2, 1)),
      (''ZUP80-XY'',  entry 4 88 (2, 1)),
      (''ZUP120-XY'', entry 6 132 (3, 1))]"

definition UVPs :: "(string \<times> limits) list" where
  "UVPs =
     [(''ZUP6-XY'',   entry 0 (598 / 100) (1, 2)),
      (''ZUP10-XY'',  entry 0 (997 / 100) (1, 2)),
      (''ZUP20-XY'',  entry 0 (199 / 10) (2, 1)),
      (''ZUP36-XY'',  entry 0 (359 / 10) (2, 1)),
      (''ZUP60-XY'',  entry 0 (598 / 10) (2, 1)),
      (''ZUP80-XY'',  entry 0 (798 / 10) (2, 1)),
      (''ZUP120-XY'', entry 0 (1198 / 10) (3, 1))]"

definition BAUD_RATES :: "int list" where
  "BAUD_RATES = [300, 600, 1200, 2400, 4800, 9600]"

definition in_ADDRESS_RANGE :: "int \<Rightarrow> bool" where
  "in_ADDRESS_RANGE a = (1 \<le> a \<and> a < 32)"

subsection \<open>Construction\<close>

definition set_remote_mode :: "'a handle_scheme \<Rightarrow> string \<Rightarrow> (world, unit) io" where
  "set_remote_mode self state0 =
     (let state = title state0
      in if state \<notin> set [''Local'', ''Remote Unlatched'', ''Remote Latched''] then raise ValueError
         else if state = ''Local'' then write_command self '':RMT0;''
         else if state = ''Remote Unlatched'' then write_command self '':RMT1;''
         else write_command self '':RMT2;'')"

definition get_model :: "'a handle_scheme \<Rightarrow> (world, string) io" where
  "get_model self = bnd (write_command self '':MDL?;'') (\<lambda>_. read_response)"

text \<open>
  The lines of \<open>__init__\<close> after the model query: the reply is cut at its brackets and at
  \<open>V\<close>, \<open>-\<close> and \<open>A\<close>, and the four limit dictionaries are looked up.
\<close>

definition resolve :: "int \<Rightarrow> string \<Rightarrow> ('s, zup) io" where
  "resolve addr mdl0 =
     bnd (str_index mdl0 CHR ''('') (\<lambda>i.
     bnd (str_index mdl0 CHR '')'') (\<lambda>j.
     let mdl = slice mdl0 (int i + 1) (int j) in
     bnd (str_index mdl CHR ''V'') (\<lambda>k.
     let v = slice mdl 0 (int k) in
     bnd (str_index mdl CHR ''-'') (\<lambda>m.
     bnd (str_index mdl CHR ''A'') (\<lambda>n.
     let a = slice mdl (int m + 1) (int n) in
     bnd (dict_get CURs (''ZUP'' @ v @ ''-'' @ a)) (\<lambda>cur.
     bnd (dict_get VOLs (''ZUP'' @ v @ ''-XY'')) (\<lambda>vol.
     bnd (dict_get OVPs (''ZUP'' @ v @ ''-XY'')) (\<lambda>ovp.
     bnd (dict_get UVPs (''ZUP'' @ v @ ''-XY'')) (\<lambda>uvp.
     ret \<lparr>address = addr, CUR = cur, VOL = vol, OVP = ovp, UVP = uvp\<rparr>)))))))))"

definition init :: "pyval \<Rightarrow> (world, zup) io" where
  "init address_arg =
     (case address_arg of
        PyInt addr \<Rightarrow>
          if \<not> in_ADDRESS_RANGE addr then raise ValueError
          else bnd (\<lambda>s. (Inr (baudrate s), s)) (\<lambda>baud.
               if baud \<notin> set BAUD_RATES then raise ValueError
               else let self = \<lparr>address = addr\<rparr> in
                 bnd (set_remote_mode self ''Remote Latched'') (\<lambda>_.
                 bnd (get_model self) (\<lambda>mdl.
                 resolve addr mdl)))
      | _ \<Rightarrow> raise TypeError)"

subsection \<open>Reading and programming voltage, current and the protection limits\<close>

definition query_float :: "'a handle_scheme \<Rightarrow> string \<Rightarrow> string \<Rightarrow> (world, rat) io" where
  "query_float self command prefix =
     bnd (write_command self command) (\<lambda>_.
     bnd read_response (\<lambda>r.
     to_float (replace r prefix [])))"

definition get_amperage_actual :: "'a handle_scheme \<Rightarrow> (world, rat) io" where
  "get_amperage_actual self = query_float self '':CUR?;'' ''AA''"

definition get_amperage_set :: "'a handle_scheme \<Rightarrow> (world, rat) io" where
  "get_amperage_set self = query_float self '':CUR!;'' ''SA''"

definition get_voltage_actual :: "'a handle_scheme \<Rightarrow> (world, rat) io" where
  "get_voltage_actual self = query_float self '':VOL?;'' ''AV''"

definition get_voltage_set :: "'a handle_scheme \<Rightarrow> (world, rat) io" where
  "get_voltage_set self = query_float self '':VOL!;'' ''SV''"

definition get_under_voltage_protection :: "'a handle_scheme \<Rightarrow> (world, rat) io" where
  "get_under_voltage_protection self = query_float self '':UVP?;'' ''UP''"

definition get_over_voltage_protection :: "'a handle_scheme \<Rightarrow> (world, rat) io" where
  "get_over_voltage_protection self = query_float self '':OVP?;'' ''OP''"

definition set_amperage :: "zup \<Rightarrow> pyval \<Rightarrow> (world, unit) io" where
  "set_amperage self arg =
     (case number_of arg of
        None \<Rightarrow> raise TypeError
      | Some amperes \<Rightarrow>
          if \<not> (lim_min (CUR self) \<le> amperes \<and> amperes \<le> lim_MAX (CUR self)) then raise ValueError
          else write_command self ('':CUR'' @ apply_format (lim_Format (CUR self)) amperes @ '';''))"

text \<open>
  A chained comparison \<open>a <= v <= b\<close> evaluates \<open>b\<close> only when \<open>a <= v\<close> holds, and the
  message of the second \<open>ValueError\<close> is built from two further queries of the device.
\<close>

definition set_voltage :: "zup \<Rightarrow> pyval \<Rightarrow> (world, unit) io" where
  "set_voltage self arg =
     (case number_of arg of
        None \<Rightarrow> raise TypeError
      | Some volts \<Rightarrow>
          if \<not> (lim_min (VOL self) \<le> volts \<and> volts \<le> lim_MAX (VOL self)) then raise ValueError
          else
            bnd (get_under_voltage_protection self) (\<lambda>up.
            bnd (if up / (95 / 100) \<le> volts
                 then bnd (get_over_voltage_protection self) (\<lambda>op. ret (volts \<le> op / (105 / 100)))
                 else ret False) (\<lambda>inside.
            if \<not> inside
            then bnd (get_under_voltage_protection self) (\<lambda>_.
                 bnd (get_over_voltage_protection self) (\<lambda>_.
                 raise ValueError))
            else write_command self ('':VOL'' @ apply_format (lim_Format (VOL self)) volts @ '';''))))"

definition set_under_voltage_protection :: "zup \<Rightarrow> pyval \<Rightarrow> (world, unit) io" where
  "set_under_voltage_protection self arg =
     (case number_of arg of
        None \<Rightarrow> raise TypeError
      | Some volts \<Rightarrow>
          if \<not> (lim_min (UVP self) \<le> volts \<and> volts \<le> lim_MAX (UVP self)) then raise ValueError
          else
            bnd (if lim_min (UVP self) \<le> volts
                 then bnd (get_voltage_set self) (\<lambda>sv. ret (volts \<le> sv * (95 / 100)))
                 else ret False) (\<lambda>inside.
            if \<not> inside
            then bnd (get_voltage_set self) (\<lambda>_. raise ValueError)
            else write_command self ('':UVP'' @ apply_format (lim_Format (UVP self)) volts @ '';'')))"

definition set_over_voltage_protection :: "zup \<Rightarrow> pyval \<Rightarrow> (world, unit) io" where
  "set_over_voltage_protection self arg =
     (case number_of arg of
        None \<Rightarrow> raise TypeError
      | Some volts \<Rightarrow>
          if \<not> (lim_min (OVP self) \<le> volts \<and> volts \<le> lim_MAX (OVP self)) then raise ValueError
          else
            bnd (get_voltage_set self) (\<lambda>sv.
            if \<not> (sv * (105 / 100) \<le> volts \<and> volts \<le> lim_MAX (OVP self))
            then bnd (get_voltage_set self) (\<lambda>_. raise ValueError)
            else write_command self ('':OVP'' @ apply_format (lim_Format (UVP self)) volts @ '';'')))"

text \<open>Any sequence of commands issued through objects that share the port.\<close>

definition issue :: "(zup \<times> string) list \<Rightarrow> (world, unit) io" where
  "issue cs = for_each (\<lambda>(z, c). write_command z c) cs"

section \<open>The multi-device functions of ABT\_ZUp.py\<close>

text \<open>
  A \<open>ZUp\<close> of a plan is the list \<open>[Address, Voltage, Amperage, Foldback]\<close>. The string
  \<open>Failures\<close> that the verification functions build is the list of the failures appended
  to it; it is empty exactly when the string is.
\<close>

record plan_entry =
  Address :: int
  Voltage :: rat
  Amperage :: rat
  Foldback :: string

datatype failure =
    CountFailure
  | AddressFailure int
  | FoldbackFailure int
  | VoltageFailure int
  | AmperageFailure int
  | PowerFailure int string
  | ToleranceFailure int string
  | ExceedsFailure int string

definition ZUp_VOL_TOLERANCE :: rat where
  "ZUp_VOL_TOLERANCE = 10"

definition ZUp_CUR_TOLERANCE :: rat where
  "ZUp_CUR_TOLERANCE = 5"

definition seq :: "('s, unit) io \<Rightarrow> ('s, 'b) io \<Rightarrow> ('s, 'b) io" where
  "seq m n = bnd m (\<lambda>_. n)"

function zero_fill :: "string \<Rightarrow> nat \<Rightarrow> string" where
  "zero_fill valFormat n =
     (if length valFormat < n then zero_fill (CHR ''0'' # valFormat) n else valFormat)"
  by pat_completeness auto
termination
  by (relation "measure (\<lambda>(valFormat, n). n - length valFormat)") auto

declare zero_fill.simps [simp del]

text \<open>
  \<open>_Format\<close>: the value is rounded, rendered by \<open>{:L.Tf}\<close> (right-aligned with spaces in a
  field of at least \<open>L\<close> characters) and then filled with zeros from the left.
\<close>

definition Format :: "rat \<Rightarrow> nat \<Rightarrow> nat \<Rightarrow> string" where
  "Format valReal digitsLeading digitsTrailing =
     zero_fill (rjust digitsLeading CHR '' '' (fixed digitsTrailing (py_round valReal digitsTrailing)))
               (digitsLeading + digitsTrailing + 1)"

definition ZUp_WriteCommand :: "string \<Rightarrow> ('a serial_scheme, unit) io" where
  "ZUp_WriteCommand Command =
     (if slice Command 0 4 = '':ADR''
      then seq (sleep 15) (seq (serial_write Command) (sleep 35))
      else seq (serial_write Command) (sleep 20))"

definition ZUp_ReadResponse :: "('a serial_scheme, string) io" where
  "ZUp_ReadResponse = readline"

definition ZUp_FormatAddress :: "int \<Rightarrow> string" where
  "ZUp_FormatAddress Addr =
     (let strAddress = show_int Addr in if Addr < 10 then CHR ''0'' # strAddress else strAddress)"

definition ADR :: "int \<Rightarrow> string" where
  "ADR Addr = '':ADR'' @ ZUp_FormatAddress Addr @ '';''"

definition ZUps_GetAddresses :: "plan_entry list \<Rightarrow> int list" where
  "ZUps_GetAddresses ZUps = map Address ZUps"

definition ZUps_VerifyAddresses :: "int list \<Rightarrow> ('s, unit) io" where
  "ZUps_VerifyAddresses Addresses =
     (let MAX_ZUps = 31;
          Failures =
            (if \<not> (1 \<le> length Addresses \<and> length Addresses < MAX_ZUps + 1) then [CountFailure] else []) @
            concat (map (\<lambda>A. if \<not> (1 \<le> A \<and> A < int MAX_ZUps + 1) then [AddressFailure A] else [])
                        Addresses)
      in if Failures \<noteq> [] then raise ValueError else ret ())"

definition ZUps_VerifyFoldbacks :: "plan_entry list \<Rightarrow> ('s, unit) io" where
  "ZUps_VerifyFoldbacks ZUps =
     (let Failures =
            concat (map (\<lambda>Z. if upper (Foldback Z) \<notin> set [''FLD_ON'', ''FLD_OFF'']
                              then [FoldbackFailure (Address Z)] else []) ZUps)
      in if Failures \<noteq> [] then raise ValueError else ret ())"

definition ZUps_VerifyBaud :: "int \<Rightarrow> ('s, unit) io" where
  "ZUps_VerifyBaud Baud =
     (if Baud \<notin> set [300, 600, 1200, 2400, 4800, 9600] then raise ValueError else ret ())"

definition ZUps_GetPortSerial :: "string \<Rightarrow> int \<Rightarrow> ('a serial_scheme, unit) io" where
  "ZUps_GetPortSerial SerialPort Baud =
     (\<lambda>s. (Inr (), s\<lparr>port := SerialPort, baudrate := Baud, is_open := True\<rparr>))"

definition ZUp_GetModel :: "('a serial_scheme, string) io" where
  "ZUp_GetModel =
     seq (ZUp_WriteCommand '':MDL?;'') (
     bnd ZUp_ReadResponse (\<lambda>MDL.
     bnd (str_index MDL CHR ''('') (\<lambda>i.
     bnd (str_index MDL CHR '')'') (\<lambda>j.
     ret (slice MDL (int i + 1) (int j))))))"

definition status_queries :: "string list" where
  "status_queries =
     ['':VOL?;'', '':CUR?;'', '':STA?;'', '':ALM?;'', '':STP?;'', '':RMT?;'', '':MDL?;'',
      '':REV?;'', '':VOL!;'', '':CUR!;'', '':FLD?;'', '':OVP?;'', '':UVP?;'', '':AST?;'']"

definition ZUp_ReadStatus :: "int \<Rightarrow> ('a serial_scheme, string) io" where
  "ZUp_ReadStatus Addr =
     seq (ZUp_WriteCommand (ADR Addr)) (
     for_acc (\<lambda>query dump.
                seq (ZUp_WriteCommand query) (
                bnd ZUp_ReadResponse (\<lambda>r. ret (dump @ r))))
             status_queries [])"

text \<open>The body of the loop of \<open>_ZUps_VerifySetVAs\<close>, for one plan entry.\<close>

definition ZUp_VerifySetVA :: "plan_entry \<Rightarrow> failure list \<Rightarrow> ('a serial_scheme, failure list) io" where
  "ZUp_VerifySetVA ZUp Failures =
     seq (ZUp_WriteCommand (ADR (Address ZUp))) (
     bnd ZUp_GetModel (\<lambda>MDL.
     bnd (str_index MDL CHR ''V'') (\<lambda>iV.
     bnd (to_float (slice MDL 0 (int iV))) (\<lambda>V.
     bnd (str_index MDL CHR ''-'') (\<lambda>iD.
     bnd (str_index MDL CHR ''A'') (\<lambda>iA.
     bnd (to_float (slice MDL (int iD + 1) (int iA))) (\<lambda>A.
     ret (Failures @
          (if \<not> (0 \<le> Voltage ZUp \<and> Voltage ZUp \<le> V)
           then [VoltageFailure (Address ZUp)] else []) @
          (if \<not> (0 \<le> Amperage ZUp \<and> Amperage ZUp \<le> A * (1 + ZUp_CUR_TOLERANCE))
           then [AmperageFailure (Address ZUp)] else [])))))))))"

definition ZUps_VerifySetVAs :: "plan_entry list \<Rightarrow> ('a serial_scheme, unit) io" where
  "ZUps_VerifySetVAs ZUps =
     bnd (for_acc ZUp_VerifySetVA ZUps [])
     (\<lambda>Failures. if Failures \<noteq> [] then seq serial_close (raise ValueError) else ret ())"

definition ZUps_SetPower :: "int list \<Rightarrow> string \<Rightarrow> ('a serial_scheme, unit) io" where
  "ZUps_SetPower Addresses DesiredState =
     for_each (\<lambda>Addr.
        seq (ZUp_WriteCommand (ADR Addr)) (
        if lower DesiredState = ''off'' then ZUp_WriteCommand '':OUT0;''
        else ZUp_WriteCommand '':OUT1;''))
      Addresses"

definition ZUps_VerifyPower :: "int list \<Rightarrow> string \<Rightarrow> ('a serial_scheme, unit) io" where
  "ZUps_VerifyPower Addresses ExpectedState =
     bnd (for_acc (\<lambda>Addr Failures.
            seq (ZUp_WriteCommand (ADR Addr)) (
            seq (ZUp_WriteCommand '':STA?;'') (
            bnd ZUp_ReadResponse (\<lambda>OSR.
            if slice OSR 5 6 = ''0'' \<and> upper ExpectedState = ''ON''
            then bnd (ZUp_ReadStatus Addr) (\<lambda>st. ret (Failures @ [PowerFailure Addr st]))
            else if slice OSR 5 6 = ''1'' \<and> lower ExpectedState = ''off''
            then bnd (ZUp_ReadStatus Addr) (\<lambda>st. ret (Failures @ [PowerFailure Addr st]))
            else ret Failures))))
          Addresses [])
     (\<lambda>Failures. if Failures \<noteq> [] then seq serial_close (raise RuntimeError) else ret ())"

definition ZUps_CleanUp :: "int list \<Rightarrow> ('a serial_scheme, unit) io" where
  "ZUps_CleanUp Addresses =
     for_each (\<lambda>Addr.
        seq (ZUp_WriteCommand (ADR Addr)) (
        seq (ZUp_WriteCommand '':RMT1;'') (
        seq (ZUp_WriteCommand '':DCL;'') (
        seq (ZUp_WriteCommand '':FLD2;'') (
        ZUp_WriteCommand '':AST0;'')))))
      Addresses"

text \<open>The body of the loop of \<open>_ZUps_VerifyActualVAs\<close>, for one plan entry.\<close>

definition ZUp_VerifyActualVA :: "plan_entry \<Rightarrow> failure list \<Rightarrow> ('a serial_scheme, failure list) io" where
  "ZUp_VerifyActualVA ZUp Failures =
     seq (ZUp_WriteCommand (ADR (Address ZUp))) (
     seq (ZUp_WriteCommand '':VOL?;'') (
     bnd ZUp_ReadResponse (\<lambda>AV.
     bnd (to_float (slice AV 2 (int (length AV) - 2))) (\<lambda>V.
     seq (ZUp_WriteCommand '':CUR?;'') (
     bnd ZUp_ReadResponse (\<lambda>AA.
     bnd (to_float (slice AA 2 (int (length AA) - 2))) (\<lambda>A.
     bnd (if \<not> (Voltage ZUp * (1 - ZUp_VOL_TOLERANCE / 100) \<le> V \<and>
                 V \<le> Voltage ZUp * (1 + ZUp_VOL_TOLERANCE / 100))
          then bnd (ZUp_ReadStatus (Address ZUp)) (\<lambda>st.
               ret (Failures @ [ToleranceFailure (Address ZUp) st]))
          else ret Failures) (\<lambda>Failures1.
     if \<not> (0 \<le> A \<and> A \<le> Amperage ZUp * (1 + ZUp_CUR_TOLERANCE))
     then bnd (ZUp_ReadStatus (Address ZUp)) (\<lambda>st.
          ret (Failures1 @ [ExceedsFailure (Address ZUp) st]))
     else ret Failures1))))))))"

definition ZUps_VerifyActualVAs :: "plan_entry list \<Rightarrow> ('a serial_scheme, unit) io" where
  "ZUps_VerifyActualVAs ZUps =
     seq (sleep 1000) (
     bnd (for_acc ZUp_VerifyActualVA ZUps [])
     (\<lambda>Failures. if Failures \<noteq> [] then seq serial_close (raise RuntimeError) else ret ()))"

subsection \<open>Programming and energizing the supplies\<close>

text \<open>The four format selections of \<open>_ZUps_PowerVAs\<close>, each an \<open>if/elif\<close> chain on the model.\<close>

definition VOL_string :: "string \<Rightarrow> rat \<Rightarrow> string" where
  "VOL_string MDL V =
     (if MDL \<in> set [''6V-33A'', ''6V-66A'', ''6V-132A''] then Format V 1 3
      else if MDL \<in> set [''10V-20A'', ''10V-40A'', ''10V-80A'', ''20V-10A'', ''20V-20A'', ''20V-40A'']
      then Format V 2 3
      else if MDL \<in> set [''36V-6A'', ''36V-12A'', ''36V-24A'', ''60V-3.5A'', ''60V-7A'', ''60V-14A'',
                            ''80V-2.5A'', ''80V-5A'']
      then Format V 2 2
      else Format V 3 2)"

definition CUR_string :: "string \<Rightarrow> rat \<Rightarrow> string" where
  "CUR_string MDL A =
     (if MDL \<in> set [''6V-33A'', ''6V-66A'', ''10V-40A'', ''10V-80A'', ''20V-40A''] then Format A 2 2
      else if MDL = ''6V-132A'' then Format A 3 2
      else if MDL \<in> set [''10V-20A'', ''20V-10A'', ''20V-20A'', ''36V-12A'', ''36V-24A'', ''60V-14A'']
      then Format A 2 3
      else if MDL \<in> set [''36V-6A'', ''60V-3.5A'', ''60V-7A'', ''80V-5A'', ''120V-3.6'']
      then Format A 1 3
      else Format A 1 4)"

definition UVP_strings :: "string \<Rightarrow> rat \<Rightarrow> string \<times> string" where
  "UVP_strings MDL uv =
     (if MDL \<in> set [''6V-33A'', ''6V-66A'', ''6V-132A'', ''10V-20A'', ''10V-40A'', ''10V-80A'']
      then (Format uv 1 2, Format 0 1 2)
      else if MDL \<in> set [''120V-1.8A'', ''120V-3.6A''] then (Format uv 3 1, Format 0 3 1)
      else (Format uv 2 1, Format 0 2 1))"

definition OVP_strings :: "string \<Rightarrow> rat \<Rightarrow> string \<times> string" where
  "OVP_strings MDL ov =
     (if MDL \<in> set [''6V-33A'', ''6V-66A'', ''6V-132A'']
      then (Format (if ov < 2 / 10 then 2 / 10 else ov) 1 2, Format (75 / 10) 1 2)
      else if MDL \<in> set [''10V-20A'', ''10V-40A'', ''10V-80A'']
      then (Format (if ov < 5 / 10 then 5 / 10 else ov) 2 1, Format 13 2 1)
      else if MDL \<in> set [''20V-10A'', ''20V-20A'', ''20V-40A'']
      then (Format (if ov < 1 then 1 else ov) 2 1, Format 24 2 1)
      else if MDL \<in> set [''36V-6A'', ''36V-12A'', ''36V-24A'']
      then (Format (if ov < 18 / 10 then 18 / 10 else ov) 2 1, Format 40 2 1)
      else if MDL \<in> set [''60V-3.5A'', ''60V-7A'', ''60V-14A'']
      then (Format (if ov < 3 then 3 else ov) 2 1, Format 66 2 1)
      else if MDL \<in> set [''80V-2.5A'', ''80V-5A'']
      then (Format (if ov < 4 then 4 else ov) 2 1, Format 88 2 1)
      else (Format (if ov < 6 then 6 else ov) 3 1, Format 132 3 1))"

text \<open>
  The six command strings that \<open>_ZUps_PowerVAs\<close> builds for one supply from its model
  and its plan entry: the format selection, then the keyword in front and \<open>;\<close> behind.
\<close>

definition cmd_VOL :: "string \<Rightarrow> plan_entry \<Rightarrow> string" where
  "cmd_VOL MDL ZUp = '':VOL'' @ VOL_string MDL (Voltage ZUp) @ '';''"

definition cmd_CUR :: "string \<Rightarrow> plan_entry \<Rightarrow> string" where
  "cmd_CUR MDL ZUp = '':CUR'' @ CUR_string MDL (Amperage ZUp) @ '';''"

definition cmd_UVP :: "string \<Rightarrow> plan_entry \<Rightarrow> string" where
  "cmd_UVP MDL ZUp =
     '':UVP'' @ fst (UVP_strings MDL (Voltage ZUp * (1 - ZUp_VOL_TOLERANCE / 100))) @ '';''"

definition cmd_UVPmin :: "string \<Rightarrow> plan_entry \<Rightarrow> string" where
  "cmd_UVPmin MDL ZUp =
     '':UVP'' @ snd (UVP_strings MDL (Voltage ZUp * (1 - ZUp_VOL_TOLERANCE / 100))) @ '';''"

definition cmd_OVP :: "string \<Rightarrow> plan_entry \<Rightarrow> string" where
  "cmd_OVP MDL ZUp =
     '':OVP'' @ fst (OVP_strings MDL (Voltage ZUp * (1 + ZUp_VOL_TOLERANCE / 100))) @ '';''"

definition cmd_OVPmax :: "string \<Rightarrow> plan_entry \<Rightarrow> string" where
  "cmd_OVPmax MDL ZUp =
     '':OVP'' @ snd (OVP_strings MDL (Voltage ZUp * (1 + ZUp_VOL_TOLERANCE / 100))) @ '';''"

definition cmd_FLD :: "plan_entry \<Rightarrow> string" where
  "cmd_FLD ZUp = (if upper (Foldback ZUp) = ''FLD_ON'' then '':FLD1;'' else '':FLD2;'')"

text \<open>The body of the loop of \<open>_ZUps_PowerVAs\<close>: everything that is done for one supply.\<close>

definition ZUp_PowerVA :: "plan_entry \<Rightarrow> ('a serial_scheme, unit) io" where
  "ZUp_PowerVA ZUp =
     seq (ZUp_WriteCommand (ADR (Address ZUp))) (
     seq (ZUp_WriteCommand '':RMT2;'') (
     seq (ZUp_WriteCommand '':DCL;'') (
     seq (ZUp_WriteCommand '':AST0;'') (
     seq (ZUp_WriteCommand (cmd_FLD ZUp)) (
     seq (ZUp_WriteCommand '':SRV0;'') (
     seq (ZUp_WriteCommand '':SRT0;'') (
     seq (ZUp_WriteCommand '':SRF0;'') (
     bnd ZUp_GetModel (\<lambda>MDL.
     seq (ZUp_WriteCommand (cmd_UVPmin MDL ZUp)) (
     seq (ZUp_WriteCommand (cmd_OVPmax MDL ZUp)) (
     seq (ZUp_WriteCommand '':CUR!;'') (
     bnd ZUp_ReadResponse (\<lambda>SA.
     bnd (to_float (slice SA 2 (int (length SA) - 2))) (\<lambda>sa.
     seq (if Amperage ZUp > sa then ZUp_WriteCommand (cmd_CUR MDL ZUp) else ret ()) (
     seq (ZUp_WriteCommand (cmd_VOL MDL ZUp)) (
     seq (ZUp_WriteCommand '':OUT1;'') (
     seq (sleep 250) (
     seq (ZUp_WriteCommand (cmd_CUR MDL ZUp)) (
     seq (ZUp_WriteCommand (cmd_OVP MDL ZUp)) (
     ZUp_WriteCommand (cmd_UVP MDL ZUp)))))))))))))))))))))"

text \<open>
  The commands of one supply in the order above, for a model and for whether the current
  is raised before the voltage.
\<close>

definition power_block :: "plan_entry \<Rightarrow> string \<Rightarrow> bool \<Rightarrow> string list" where
  "power_block ZUp MDL raise_first =
     [ADR (Address ZUp), '':RMT2;'', '':DCL;'', '':AST0;'', cmd_FLD ZUp,
      '':SRV0;'', '':SRT0;'', '':SRF0;'', '':MDL?;'',
      cmd_UVPmin MDL ZUp, cmd_OVPmax MDL ZUp, '':CUR!;''] @
     (if raise_first then [cmd_CUR MDL ZUp] else []) @
     [cmd_VOL MDL ZUp, '':OUT1;'', cmd_CUR MDL ZUp, cmd_OVP MDL ZUp, cmd_UVP MDL ZUp]"

definition ZUps_PowerVAs :: "plan_entry list \<Rightarrow> ('a serial_scheme, unit) io" where
  "ZUps_PowerVAs ZUps = for_each ZUp_PowerVA ZUps"

definition ZUps_ON :: "plan_entry list \<Rightarrow> string \<Rightarrow> int \<Rightarrow> ('a serial_scheme, unit) io" where
  "ZUps_ON ZUps SerialPort Baud =
     (let Addresses = ZUps_GetAddresses ZUps in
      seq (ZUps_VerifyAddresses Addresses) (
      seq (ZUps_VerifyFoldbacks ZUps) (
      seq (ZUps_VerifyBaud Baud) (
      seq (ZUps_GetPortSerial SerialPort Baud) (
      seq (ZUps_VerifySetVAs ZUps) (
      seq (ZUps_PowerVAs ZUps) (
      seq (ZUps_VerifyActualVAs ZUps) (
      serial_close))))))))"

definition ZUps_off :: "int list \<Rightarrow> string \<Rightarrow> int \<Rightarrow> ('a serial_scheme, unit) io" where
  "ZUps_off Addresses SerialPort Baud =
     seq (ZUps_VerifyAddresses Addresses) (
     seq (ZUps_VerifyBaud Baud) (
     seq (ZUps_GetPortSerial SerialPort Baud) (
     seq (ZUps_SetPower Addresses ''off'') (
     seq (ZUps_VerifyPower Addresses ''off'') (
     seq (ZUps_CleanUp Addresses) (
     serial_close))))))"

subsection \<open>Predicates on traces\<close>

text \<open>
  An addressing command is recognised as \<open>_ZUp_WriteCommand\<close> recognises it, by its first
  four characters.
\<close>

definition is_adr :: "string \<Rightarrow> bool" where
  "is_adr c = (slice c 0 4 = '':ADR'')"

text \<open>
  A trace is settled when every write is directly followed by a delay of at least 15 ms,
  and every \<open>ADR\<close> write is directly preceded by a delay of at least 10 ms and directly
  followed by one of at least 30 ms.
\<close>

fun settled_from :: "event option \<Rightarrow> event list \<Rightarrow> bool" where
  "settled_from prev [] = True"
| "settled_from prev (Sleep d # es) = settled_from (Some (Sleep d)) es"
| "settled_from prev (Write c # es) =
     ((case es of Sleep d # _ \<Rightarrow> 15 \<le> d \<and> (is_adr c \<longrightarrow> 30 \<le> d) | _ \<Rightarrow> False) \<and>
      (is_adr c \<longrightarrow> (case prev of Some (Sleep d) \<Rightarrow> 10 \<le> d | _ \<Rightarrow> False)) \<and>
      settled_from (Some (Write c)) es)"

definition settled :: "event list \<Rightarrow> bool" where
  "settled es = settled_from None es"

definition keeps_timing :: "('a serial_scheme, 'b) io \<Rightarrow> bool" where
  "keeps_timing m = (\<forall>s. settled (trace s) \<longrightarrow> settled (trace (snd (m s))))"

definition last_event :: "event option \<Rightarrow> event list \<Rightarrow> event option" where
  "last_event p es = (if es = [] then p else Some (last es))"

subsection \<open>Parts of ZUps\_off\<close>

text \<open>
  The commands of \<open>_ZUps_CleanUp\<close> for one address, and \<open>ZUps_off\<close> up to and including
  its verification.
\<close>

definition cleanup_block :: "int \<Rightarrow> string list" where
  "cleanup_block a = [ADR a, '':RMT1;'', '':DCL;'', '':FLD2;'', '':AST0;'']"

definition off_prefix :: "int list \<Rightarrow> string \<Rightarrow> int \<Rightarrow> ('a serial_scheme, unit) io" where
  "off_prefix Addresses SerialPort Baud =
     seq (ZUps_VerifyAddresses Addresses) (
     seq (ZUps_VerifyBaud Baud) (
     seq (ZUps_GetPortSerial SerialPort Baud) (
     seq (ZUps_SetPower Addresses ''off'') (
     ZUps_VerifyPower Addresses ''off''))))"

text \<open>\<open>ZUps_ON\<close> up to and including the validation against the models.\<close>

definition on_prefix :: "plan_entry list \<Rightarrow> string \<Rightarrow> int \<Rightarrow> ('a serial_scheme, unit) io" where
  "on_prefix ZUps SerialPort Baud =
      seq (ZUps_VerifyAddresses (ZUps_GetAddresses ZUps)) (
      seq (ZUps_VerifyFoldbacks ZUps) (
      seq (ZUps_VerifyBaud Baud) (
      seq (ZUps_GetPortSerial SerialPort Baud) (
      ZUps_VerifySetVAs ZUps))))"

subsection \<open>Predicates on computations\<close>

text \<open>
  \<open>emits P Q m\<close>: running \<open>m\<close> only appends to the written commands; what it appends
  satisfies \<open>P\<close> when \<open>m\<close> raises and \<open>Q\<close> when it returns. \<open>nofail m\<close>: \<open>m\<close> never raises.
  \<open>stateless m\<close>: \<open>m\<close> leaves the state as it is.
\<close>

definition emits :: "(string \<Rightarrow> bool) \<Rightarrow> (string \<Rightarrow> bool) \<Rightarrow> ('a serial_scheme, 'b) io \<Rightarrow> bool" where
  "emits P Q m =
     (\<forall>s. \<exists>ws. writes (trace (snd (m s))) = writes (trace s) @ ws \<and>
                (case fst (m s) of Inl e \<Rightarrow> list_all P ws | Inr x \<Rightarrow> list_all Q ws))"

definition nofail :: "('s, 'b) io \<Rightarrow> bool" where
  "nofail m = (\<forall>s. \<exists>x. fst (m s) = Inr x)"

definition stateless :: "('s, 'b) io \<Rightarrow> bool" where
  "stateless m = (\<forall>s. snd (m s) = s)"

section \<open>Concrete states and objects used in the examples\<close>

definition w0 :: world where
  "w0 = \<lparr>port = ''COM1'', baudrate = 9600, is_open = True, trace = [], incoming = [],
         listening_addresses = Map.empty\<rparr>"

definition zup_at :: "int \<Rightarrow> zup" where
  "zup_at a = \<lparr>address = a, CUR = entry 0 (63 / 10) (1, 3), VOL = entry 0 (378 / 10) (2, 2),
               OVP = entry (8 / 10) 40 (2, 1), UVP = entry 0 (359 / 10) (2, 1)\<rparr>"

definition port0 :: serial where
  "port0 = \<lparr>port = [], baudrate = 0, is_open = False, trace = [], incoming = []\<rparr>"

definition w36 :: world where
  "w36 = w0\<lparr>incoming := [''Nemic-Lambda ZUP(36V-6A)'' @ CRLF]\<rparr>"

definition wq :: world where
  "wq = w0\<lparr>incoming := [''UP04.5'' @ CRLF, ''OP05.5'' @ CRLF, ''UP04.5'' @ CRLF, ''OP05.5'' @ CRLF],
           listening_addresses := [''COM1'' \<mapsto> 1]\<rparr>"

definition port_off :: serial where
  "port_off = port0\<lparr>incoming := [''OS00000000'' @ CRLF, ''OS00010000'' @ CRLF]\<rparr>"

definition port_all_off :: serial where
  "port_all_off = port0\<lparr>incoming := [''OS00000000'' @ CRLF, ''OS00000000'' @ CRLF]\<rparr>"

definition z10 :: zup where
  "z10 = \<lparr>address = 1, CUR = entry 0 21 (2, 3), VOL = entry 0 (105 / 10) (2, 3),
           OVP = entry (5 / 10) 13 (2, 1), UVP = entry 0 (997 / 100) (1, 2)\<rparr>"

definition w10 :: world where
  "w10 = w0\<lparr>incoming := [''Nemic-Lambda ZUP(10V-20A)'' @ CRLF]\<rparr>"

definition w10_set :: world where
  "w10_set = w0\<lparr>incoming := [''SV05.000'' @ CRLF], listening_addresses := [''COM1'' \<mapsto> 1]\<rparr>"

definition port36 :: serial where
  "port36 = port0\<lparr>incoming := [''Nemic-Lambda ZUP(36V-6A)'' @ CRLF]\<rparr>"

definition port_actual :: serial where
  "port_actual = port0\<lparr>incoming := [''AV05.00'' @ CRLF, ''AA05.00'' @ CRLF]\<rparr>"

definition plan2 :: "plan_entry list" where
  "plan2 = [\<lparr>Address = 1, Voltage = 33 / 10, Amperage = 1, Foldback = ''FLD_off''\<rparr>,
            \<lparr>Address = 2, Voltage = 5, Amperage = 1, Foldback = ''FLD_ON''\<rparr>]"

definition port_plan2 :: serial where
  "port_plan2 = port0\<lparr>incoming :=
     [''Nemic-Lambda ZUP(36V-6A)'' @ CRLF, ''SA0.500'' @ CRLF,
      ''Nemic-Lambda ZUP(20V-10A)'' @ CRLF, ''SA03.000'' @ CRLF]\<rparr>"

definition port_on_plan2 :: serial where
  "port_on_plan2 = port0\<lparr>incoming :=
     [''Nemic-Lambda ZUP(36V-6A)'' @ CRLF, ''Nemic-Lambda ZUP(20V-10A)'' @ CRLF,
      ''Nemic-Lambda ZUP(36V-6A)'' @ CRLF, ''SA0.500'' @ CRLF,
      ''Nemic-Lambda ZUP(20V-10A)'' @ CRLF, ''SA03.000'' @ CRLF,
      ''AV03.30'' @ CRLF, ''AA0.100'' @ CRLF, ''AV05.000'' @ CRLF, ''AA00.200'' @ CRLF]\<rparr>"

definition w_open :: world where
  "w_open = w0\<lparr>incoming := [''UP00.0'' @ CRLF, ''OP40.0'' @ CRLF],
               listening_addresses := [''COM1'' \<mapsto> 1]\<rparr>"

section \<open>Basic facts about the monad, the transport and the timing invariant\<close>

lemma bnd_ret [simp]: "bnd (ret x) f = f x"
  by (simp add: bnd_def ret_def)

lemma bnd_raise [simp]: "bnd (raise e) f = raise e"
  by (simp add: bnd_def raise_def)

lemma seq_ret [simp]: "seq (ret x) n = n"
  by (simp add: seq_def)

lemma seq_raise [simp]: "seq (raise e) n = raise e"
  by (simp add: seq_def)

lemma write_command_run:
  "write_command self command s =
     (Inr (), s\<lparr>trace := trace s @
                   (if listening_addresses s (port s) = Some (address self) then []
                    else [Sleep 15, Write (adr_command (address self)), Sleep 35]) @
                   [Write command, Sleep 20],
                 listening_addresses := (listening_addresses s)(port s \<mapsto> address self)\<rparr>)"
  by (simp add: write_command_def bnd_def ret_def sleep_def serial_write_def map_upd_triv)

lemma is_adr_Cons4 [simp]: "is_adr (a # b # c # d # r) = ([a, b, c, d] = '':ADR'')"
  by (simp add: is_adr_def slice_def min_def)

lemma is_adr_short [simp]:
  "is_adr [] = False" "is_adr [a] = False" "is_adr [a, b] = False" "is_adr [a, b, c] = False"
  by (simp_all add: is_adr_def slice_def min_def)

lemma ZUp_WriteCommand_run:
  "ZUp_WriteCommand c s =
     (Inr (), s\<lparr>trace := trace s @
                   (if is_adr c then [Sleep 15, Write c, Sleep 35] else [Write c, Sleep 20])\<rparr>)"
  by (simp add: ZUp_WriteCommand_def is_adr_def seq_def bnd_def sleep_def serial_write_def)

lemma settled_from_append:
  "settled_from p xs \<Longrightarrow> settled_from (last_event p xs) ys \<Longrightarrow> settled_from p (xs @ ys)"
proof (induction p xs rule: settled_from.induct)
  case (1 prev)
  then show ?case by (simp add: last_event_def)
next
  case (2 prev d es)
  then show ?case by (simp add: last_event_def split: if_splits)
next
  case (3 prev c es)
  then show ?case
    by (cases es) (auto simp: last_event_def split: if_splits event.splits list.splits)
qed

lemma adr_is_adr [simp]: "is_adr (adr_command a)"
  by (simp add: adr_command_def)

lemma settled_append_fragment:
  assumes "settled es" and "\<And>p. settled_from p frag"
  shows "settled (es @ frag)"
  using assms settled_from_append[of None es frag] by (simp add: settled_def)

named_theorems keeps

lemma keeps_write_command [keeps]: "\<not> is_adr c \<Longrightarrow> keeps_timing (write_command z c)"
  unfolding keeps_timing_def
  by (auto simp: write_command_run intro!: settled_append_fragment)

lemma keeps_ZUp_WriteCommand [keeps]: "keeps_timing (ZUp_WriteCommand c)"
  unfolding keeps_timing_def
  by (auto simp: ZUp_WriteCommand_run intro!: settled_append_fragment)

lemma keeps_ret [keeps]: "keeps_timing (ret x)"
  by (simp add: keeps_timing_def ret_def)

lemma keeps_raise [keeps]: "keeps_timing (raise e)"
  by (simp add: keeps_timing_def raise_def)

lemma keeps_bnd [keeps]: "keeps_timing m \<Longrightarrow> (\<And>x. keeps_timing (f x)) \<Longrightarrow> keeps_timing (bnd m f)"
  unfolding keeps_timing_def bnd_def
  by (auto split: prod.splits sum.splits)

lemma keeps_seq [keeps]: "keeps_timing m \<Longrightarrow> keeps_timing n \<Longrightarrow> keeps_timing (seq m n)"
  unfolding seq_def by (rule keeps_bnd)

lemma keeps_for_each [keeps]: "(\<And>x. keeps_timing (body x)) \<Longrightarrow> keeps_timing (for_each body xs)"
  by (induction xs) (auto intro: keeps_ret keeps_bnd)

lemma keeps_for_acc [keeps]: "(\<And>x a. keeps_timing (body x a)) \<Longrightarrow> keeps_timing (for_acc body xs acc)"
  by (induction xs arbitrary: acc) (auto intro: keeps_ret keeps_bnd)

lemma keeps_sleep [keeps]: "keeps_timing (sleep d)"
  unfolding keeps_timing_def
  by (auto simp: sleep_def intro!: settled_append_fragment)

lemma keeps_readline [keeps]: "keeps_timing readline"
  unfolding keeps_timing_def
  by (auto simp: readline_def split: list.splits)

lemma keeps_close [keeps]: "keeps_timing serial_close"
  unfolding keeps_timing_def
  by (auto simp: serial_close_def)

lemma keeps_if [keeps]: "keeps_timing m \<Longrightarrow> keeps_timing n \<Longrightarrow> keeps_timing (if b then m else n)"
  by simp

lemma keeps_to_float [keeps]: "keeps_timing (to_float x)"
  by (auto simp: to_float_def intro: keeps_ret keeps_raise split: option.splits)

lemma keeps_str_index [keeps]: "keeps_timing (str_index x c)"
  by (auto simp: str_index_def intro: keeps_ret keeps_raise split: option.splits)

lemma keeps_dict_get [keeps]: "keeps_timing (dict_get d k)"
  by (auto simp: dict_get_def intro: keeps_ret keeps_raise split: option.splits)

lemma keeps_GetPortSerial [keeps]: "keeps_timing (ZUps_GetPortSerial p b)"
  by (simp add: keeps_timing_def ZUps_GetPortSerial_def)

lemma keeps_VerifyAddresses [keeps]: "keeps_timing (ZUps_VerifyAddresses as)"
  by (simp add: ZUps_VerifyAddresses_def Let_def keeps_ret keeps_raise)

lemma keeps_VerifyFoldbacks [keeps]: "keeps_timing (ZUps_VerifyFoldbacks zs)"
  by (simp add: ZUps_VerifyFoldbacks_def Let_def keeps_ret keeps_raise)

lemma keeps_VerifyBaud [keeps]: "keeps_timing (ZUps_VerifyBaud b)"
  by (simp add: ZUps_VerifyBaud_def keeps_ret keeps_raise)

lemma keeps_GetModel [keeps]: "keeps_timing ZUp_GetModel"
  unfolding ZUp_GetModel_def ZUp_ReadResponse_def by (intro keeps)

lemma keeps_ReadStatus [keeps]: "keeps_timing (ZUp_ReadStatus a)"
  unfolding ZUp_ReadStatus_def ZUp_ReadResponse_def by (intro keeps)

lemma keeps_VerifySetVAs [keeps]: "keeps_timing (ZUps_VerifySetVAs zs)"
  unfolding ZUps_VerifySetVAs_def ZUp_VerifySetVA_def by (intro keeps)

lemma keeps_SetPower [keeps]: "keeps_timing (ZUps_SetPower as st)"
  unfolding ZUps_SetPower_def by (intro keeps)

lemma keeps_VerifyPower [keeps]: "keeps_timing (ZUps_VerifyPower as st)"
  unfolding ZUps_VerifyPower_def ZUp_ReadResponse_def by (intro keeps)

lemma keeps_CleanUp [keeps]: "keeps_timing (ZUps_CleanUp as)"
  unfolding ZUps_CleanUp_def by (intro keeps)

lemma keeps_VerifyActualVAs [keeps]: "keeps_timing (ZUps_VerifyActualVAs zs)"
  unfolding ZUps_VerifyActualVAs_def ZUp_VerifyActualVA_def ZUp_ReadResponse_def by (intro keeps)

lemma keeps_PowerVA [keeps]: "keeps_timing (ZUp_PowerVA z)"
  unfolding ZUp_PowerVA_def ZUp_ReadResponse_def Let_def by (intro keeps)

lemma keeps_PowerVAs [keeps]: "keeps_timing (ZUps_PowerVAs zs)"
  unfolding ZUps_PowerVAs_def by (intro keeps)

lemma keeps_ZUps_ON: "keeps_timing (ZUps_ON zs p b)"
  unfolding ZUps_ON_def Let_def by (intro keeps)

lemma keeps_ZUps_off: "keeps_timing (ZUps_off as p b)"
  unfolding ZUps_off_def by (intro keeps)

lemma keeps_read_response [keeps]: "keeps_timing read_response"
  unfolding read_response_def by (intro keeps)

lemma keeps_query_float [keeps]: "\<not> is_adr c \<Longrightarrow> keeps_timing (query_float z c p)"
  unfolding query_float_def by (intro keeps)

lemma keeps_set_remote_mode [keeps]: "keeps_timing (set_remote_mode z st)"
  unfolding set_remote_mode_def Let_def by (intro keeps) simp_all

lemma keeps_get_model [keeps]: "keeps_timing (get_model z)"
  unfolding get_model_def by (intro keeps) simp_all

lemma keeps_resolve [keeps]: "keeps_timing (resolve a m)"
  unfolding resolve_def Let_def by (intro keeps)

lemma keeps_init: "keeps_timing (init a)"
  unfolding init_def Let_def
  by (cases a) (auto intro!: keeps simp: keeps_timing_def[of "\<lambda>s. (Inr (baudrate s), s)"])

lemma keeps_getters [keeps]:
  "keeps_timing (get_voltage_set z)" "keeps_timing (get_under_voltage_protection z)"
  "keeps_timing (get_over_voltage_protection z)"
  unfolding get_voltage_set_def get_under_voltage_protection_def get_over_voltage_protection_def
  by (intro keeps; simp)+

lemma keeps_set_voltage: "keeps_timing (set_voltage z v)"
  unfolding set_voltage_def
  by (cases "number_of v") (auto intro!: keeps)

lemma keeps_set_ovp: "keeps_timing (set_over_voltage_protection z v)"
  unfolding set_over_voltage_protection_def
  by (cases "number_of v") (auto intro!: keeps)

lemma keeps_set_uvp: "keeps_timing (set_under_voltage_protection z v)"
  unfolding set_under_voltage_protection_def
  by (cases "number_of v") (auto intro!: keeps)

lemma keeps_set_amperage: "keeps_timing (set_amperage z v)"
  unfolding set_amperage_def
  by (cases "number_of v") (auto intro!: keeps)

lemma issue_Cons: "issue ((z, c) # cs) = seq (write_command z c) (issue cs)"
  by (simp add: issue_def seq_def)

lemma issue_last:
  "cs \<noteq> [] \<Longrightarrow>
   listening_addresses (snd (issue cs s)) (port (snd (issue cs s))) = Some (address (fst (last cs)))"
proof (induction cs arbitrary: s)
  case Nil
  then show ?case by simp
next
  case (Cons x xs)
  obtain z c where x: "x = (z, c)" by (cases x)
  show ?case
  proof (cases "xs = []")
    case True
    then show ?thesis
      by (simp add: x issue_def bnd_def write_command_run ret_def)
  next
    case False
    have "issue (x # xs) s = issue xs (snd (write_command z c s))"
      by (simp add: x issue_Cons seq_def bnd_def write_command_run)
    then show ?thesis using Cons.IH[OF False] False by simp
  qed
qed

lemma keeps_issue: "\<forall>(z, c) \<in> set cs. \<not> is_adr c \<Longrightarrow> keeps_timing (issue cs)"
proof (induction cs)
  case Nil
  then show ?case by (simp add: issue_def keeps_ret)
next
  case (Cons x xs)
  then show ?case by (cases x) (auto simp: issue_Cons intro!: keeps_seq keeps_write_command)
qed

subsection \<open>What a computation writes\<close>

lemma read_response_run:
  "read_response s =
     (Inr (replace (case incoming s of [] \<Rightarrow> [] | l # _ \<Rightarrow> l) CRLF []), s\<lparr>incoming := tl (incoming s)\<rparr>)"
  by (simp add: read_response_def bnd_def readline_def ret_def split: list.splits)

lemma writes_append [simp]: "writes (xs @ ys) = writes xs @ writes ys"
  by (induction xs rule: writes.induct) auto

named_theorems emit

lemma emits_ret [emit]: "emits P Q (ret x)"
  by (simp add: emits_def ret_def)

lemma emits_raise [emit]: "emits P Q (raise e)"
  by (simp add: emits_def raise_def)

lemma emits_bnd [emit]:
  assumes m: "emits P (\<lambda>c. P c \<and> Q c) m" and f: "\<And>x. emits P Q (f x)"
  shows "emits P Q (bnd m f)"
  unfolding emits_def
proof
  fix s
  obtain r s1 where ms: "m s = (r, s1)" by (cases "m s")
  from m[unfolded emits_def, rule_format, of s] ms obtain ws1 where
    w1: "writes (trace s1) = writes (trace s) @ ws1" and
    c1: "case r of Inl e \<Rightarrow> list_all P ws1 | Inr x \<Rightarrow> list_all (\<lambda>c. P c \<and> Q c) ws1"
    by auto
  show "\<exists>ws. writes (trace (snd (bnd m f s))) = writes (trace s) @ ws \<and>
             (case fst (bnd m f s) of Inl e \<Rightarrow> list_all P ws | Inr x \<Rightarrow> list_all Q ws)"
  proof (cases r)
    case (Inl e)
    then show ?thesis using ms w1 c1 by (auto simp: bnd_def)
  next
    case (Inr x)
    from f[of x, unfolded emits_def, rule_format, of s1] obtain ws2 where
      w2: "writes (trace (snd (f x s1))) = writes (trace s1) @ ws2" and
      c2: "case fst (f x s1) of Inl e \<Rightarrow> list_all P ws2 | Inr y \<Rightarrow> list_all Q ws2"
      by auto
    have b: "bnd m f s = f x s1" using ms Inr by (simp add: bnd_def)
    have l1: "list_all P ws1" "list_all Q ws1"
      using c1 Inr by (auto simp: list_all_iff)
    show ?thesis
      using w1 w2 c2 l1 unfolding b
      by (intro exI[of _ "ws1 @ ws2"]) (auto split: sum.splits)
  qed
qed

lemma emits_seq [emit]:
  "emits P (\<lambda>c. P c \<and> Q c) m \<Longrightarrow> emits P Q n \<Longrightarrow> emits P Q (seq m n)"
  unfolding seq_def by (rule emits_bnd)

lemma emits_for_each [emit]:
  "(\<And>x. emits P (\<lambda>c. P c \<and> Q c) (body x)) \<Longrightarrow> emits P Q (for_each body xs)"
  by (induction xs) (auto intro: emits_ret emits_bnd)

lemma emits_for_acc [emit]:
  "(\<And>x a. emits P (\<lambda>c. P c \<and> Q c) (body x a)) \<Longrightarrow> emits P Q (for_acc body xs acc)"
  by (induction xs arbitrary: acc) (auto intro: emits_ret emits_bnd)

lemma emits_if [emit]: "emits P Q m \<Longrightarrow> emits P Q n \<Longrightarrow> emits P Q (if b then m else n)"
  by simp

lemma emits_sleep [emit]: "emits P Q (sleep d)"
  by (simp add: emits_def sleep_def)

lemma emits_readline [emit]: "emits P Q readline"
  by (auto simp: emits_def readline_def split: list.splits)

lemma emits_close [emit]: "emits P Q serial_close"
  by (simp add: emits_def serial_close_def)

lemma emits_to_float [emit]: "emits P Q (to_float x)"
  by (auto simp: to_float_def intro: emits_ret emits_raise split: option.splits)

lemma emits_str_index [emit]: "emits P Q (str_index x c)"
  by (auto simp: str_index_def intro: emits_ret emits_raise split: option.splits)

lemma emits_dict_get [emit]: "emits P Q (dict_get d k)"
  by (auto simp: dict_get_def intro: emits_ret emits_raise split: option.splits)

lemma emits_write_command [emit]:
  "Q c \<Longrightarrow> Q (adr_command (address z)) \<Longrightarrow> emits P Q (write_command z c)"
  by (simp add: emits_def write_command_run)

lemma emits_ZUp_WriteCommand [emit]: "Q c \<Longrightarrow> emits P Q (ZUp_WriteCommand c)"
  by (simp add: emits_def ZUp_WriteCommand_run)

lemma emits_read_response [emit]: "emits P Q read_response"
  unfolding read_response_def by (intro emit)

lemma emits_query_float [emit]:
  "Q c \<and> P c \<Longrightarrow> Q (adr_command (address z)) \<and> P (adr_command (address z)) \<Longrightarrow>
   emits P Q (query_float z c p)"
  unfolding query_float_def by (intro emit) simp_all

lemma nofail_ret [simp]: "nofail (ret x)"
  by (simp add: nofail_def ret_def)

lemma nofail_bnd: "nofail m \<Longrightarrow> (\<And>x. nofail (f x)) \<Longrightarrow> nofail (bnd m f)"
  unfolding nofail_def bnd_def
  by (auto split: prod.splits sum.splits) (metis Inl_Inr_False fst_conv)

lemma nofail_seq: "nofail m \<Longrightarrow> nofail n \<Longrightarrow> nofail (seq m n)"
  unfolding seq_def by (rule nofail_bnd)

lemma nofail_for_each: "(\<And>x. nofail (body x)) \<Longrightarrow> nofail (for_each body xs)"
  by (induction xs) (auto intro: nofail_bnd)

lemma nofail_ZUp_WriteCommand [simp]: "nofail (ZUp_WriteCommand c)"
  by (simp add: nofail_def ZUp_WriteCommand_run)

lemma nofail_write_command [simp]: "nofail (write_command z c)"
  by (simp add: nofail_def write_command_run)

lemma nofail_close [simp]: "nofail serial_close"
  by (simp add: nofail_def serial_close_def)

lemma emits_nofail: "nofail m \<Longrightarrow> emits P' Q m \<Longrightarrow> emits P Q m"
  unfolding nofail_def emits_def
  by (auto split: sum.splits) (metis Inl_Inr_False)+

lemma stateless_ret [simp]: "stateless (ret x)"
  by (simp add: stateless_def ret_def)

lemma stateless_raise [simp]: "stateless (raise e)"
  by (simp add: stateless_def raise_def)

lemma stateless_bnd: "stateless m \<Longrightarrow> (\<And>x. stateless (f x)) \<Longrightarrow> stateless (bnd m f)"
  unfolding stateless_def bnd_def
  by (auto split: prod.splits sum.splits) (metis snd_conv)+

lemma stateless_str_index [simp]: "stateless (str_index x c)"
  by (simp add: str_index_def split: option.splits)

lemma stateless_dict_get [simp]: "stateless (dict_get d k)"
  by (simp add: dict_get_def split: option.splits)

lemma stateless_to_float [simp]: "stateless (to_float x)"
  by (simp add: to_float_def split: option.splits)

lemma snd_bnd_stateless: "(\<And>x. stateless (f x)) \<Longrightarrow> snd (bnd m f s) = snd (m s)"
  unfolding stateless_def bnd_def by (auto split: prod.splits sum.splits)

lemma title_Remote_Latched: "title ''Remote Latched'' = ''Remote Latched''"
  by code_simp

lemma set_remote_mode_latched:
  "set_remote_mode self ''Remote Latched'' = write_command self '':RMT2;''"
  by (simp add: set_remote_mode_def title_Remote_Latched)

lemma stateless_resolve: "stateless (resolve addr mdl0)"
  unfolding resolve_def Let_def by (intro stateless_bnd) simp_all

lemma init_state:
  assumes "in_ADDRESS_RANGE addr" "baudrate s \<in> set BAUD_RATES"
  shows "snd (init (PyInt addr) s) =
         snd (get_model \<lparr>address = addr\<rparr> (snd (write_command \<lparr>address = addr\<rparr> '':RMT2;'' s)))"
proof -
  let ?self = "\<lparr>address = addr\<rparr>"
  let ?s1 = "snd (write_command ?self '':RMT2;'' s)"
  have "init (PyInt addr) s = bnd (get_model ?self) (resolve addr) ?s1"
    using assms
    by (simp add: init_def set_remote_mode_latched bnd_def[of "\<lambda>s. (Inr (baudrate s), s)"]
        bnd_def[of "write_command ?self '':RMT2;''"] write_command_run Let_def)
  then show ?thesis
    by (simp only: snd_bnd_stateless[OF stateless_resolve])
qed

section \<open>Addressing happens exactly on a change of address\<close>

text \<open>
  C4. After any sequence \<open>cs\<close> of commands issued through objects sharing the port, the
  next command of an object with address \<open>A\<close> is preceded by \<open>ADR\<close> for \<open>A\<close>, between
  its two delays, exactly when the port's listening address is not \<open>A\<close>; that listening
  address is the address of the object that issued the last command, so a command to the same
  address adds no \<open>ADR\<close> and a command to another address adds one; afterwards the port's
  entry in \<open>listening_addresses\<close> is \<open>A\<close>.
\<close>

theorem address_only_on_change:
  fixes self :: zup
  shows "let s = snd (issue cs s0); s' = snd (write_command self command s) in
     trace s' = trace s @
        (if listening_addresses s (port s) = Some (address self) then []
         else [Sleep 15, Write (adr_command (address self)), Sleep 35]) @
        [Write command, Sleep 20] \<and>
     listening_addresses s' (port s') = Some (address self) \<and>
     (cs \<noteq> [] \<longrightarrow>
        listening_addresses s (port s) = Some (address (fst (last cs))) \<and>
        writes (trace s') = writes (trace s) @
          (if address (fst (last cs)) = address self then [] else [adr_command (address self)]) @
          [command])"
  by (auto simp: Let_def write_command_run issue_last)

theorem address_only_on_change_witness:
  "writes (trace (snd (write_command (zup_at 2) '':OUT1;''
      (snd (issue [(zup_at 1, '':VOL?;''), (zup_at 1, '':CUR?;'')] w0))))) =
   ['':ADR01;'', '':VOL?;'', '':CUR?;'', '':ADR02;'', '':OUT1;'']"
  using address_only_on_change[of "[(zup_at 1, '':VOL?;''), (zup_at 1, '':CUR?;'')]" w0 "zup_at 2" "'':OUT1;''"]
  by (simp add: Let_def issue_def bnd_def ret_def write_command_run w0_def zup_at_def adr_command_def
      rjust_def show_int_def show_nat.simps digit_char_def)

lemma keepsD: "keeps_timing m \<Longrightarrow> settled (trace u) \<Longrightarrow> settled (trace (snd (m u)))"
  by (simp add: keeps_timing_def)

section \<open>Settle delays\<close>

text \<open>
  C9. Every command sequence keeps the trace settled: each write is followed by a delay of at
  least 15 ms before the next write, and each \<open>ADR\<close> write is preceded by at least 10 ms and
  followed by at least 30 ms. This holds for any sequence of commands sent through
  \<open>_write_command\<close> of class \<open>Zup\<close> (the commands passed in being device commands, not
  \<open>ADR\<close> itself, which the method sends on its own), for any sequence sent through
  \<open>_ZUp_WriteCommand\<close>, for \<open>ZUps_ON\<close> and \<open>ZUps_off\<close> as a whole, and for construction
  and the four programming methods of class \<open>Zup\<close>.
\<close>

theorem settle_delays_kept:
  "(settled (trace s) \<and> (\<forall>(z, c) \<in> set cs. \<not> is_adr c) \<longrightarrow> settled (trace (snd (issue cs s)))) \<and>
   (settled (trace t) \<longrightarrow> settled (trace (snd (for_each ZUp_WriteCommand ds t)))) \<and>
   (settled (trace t) \<longrightarrow> settled (trace (snd (ZUps_ON ZUps SerialPort Baud t)))) \<and>
   (settled (trace t) \<longrightarrow> settled (trace (snd (ZUps_off Addresses SerialPort Baud t)))) \<and>
   (settled (trace s) \<longrightarrow> settled (trace (snd (init a s)))) \<and>
   (settled (trace s) \<longrightarrow> settled (trace (snd (set_voltage self v s)))) \<and>
   (settled (trace s) \<longrightarrow> settled (trace (snd (set_amperage self v s)))) \<and>
   (settled (trace s) \<longrightarrow> settled (trace (snd (set_under_voltage_protection self v s)))) \<and>
   (settled (trace s) \<longrightarrow> settled (trace (snd (set_over_voltage_protection self v s))))"
proof -
  have 1: "settled (trace s) \<and> (\<forall>(z, c) \<in> set cs. \<not> is_adr c) \<longrightarrow> settled (trace (snd (issue cs s)))"
    by (auto intro: keepsD[OF keeps_issue])
  have 2: "settled (trace t) \<longrightarrow> settled (trace (snd (for_each ZUp_WriteCommand ds t)))"
    by (rule impI, erule keepsD[OF keeps_for_each, OF keeps_ZUp_WriteCommand])
  have 3: "settled (trace t) \<longrightarrow> settled (trace (snd (ZUps_ON ZUps SerialPort Baud t)))"
    by (rule impI, erule keepsD[OF keeps_ZUps_ON])
  have 4: "settled (trace t) \<longrightarrow> settled (trace (snd (ZUps_off Addresses SerialPort Baud t)))"
    by (rule impI, erule keepsD[OF keeps_ZUps_off])
  have 5: "settled (trace s) \<longrightarrow> settled (trace (snd (init a s)))"
    by (rule impI, erule keepsD[OF keeps_init])
  have 6: "settled (trace s) \<longrightarrow> settled (trace (snd (set_voltage self v s)))"
    by (rule impI, erule keepsD[OF keeps_set_voltage])
  have 7: "settled (trace s) \<longrightarrow> settled (trace (snd (set_amperage self v s)))"
    by (rule impI, erule keepsD[OF keeps_set_amperage])
  have 8: "settled (trace s) \<longrightarrow> settled (trace (snd (set_under_voltage_protection self v s)))"
    by (rule impI, erule keepsD[OF keeps_set_uvp])
  have 9: "settled (trace s) \<longrightarrow> settled (trace (snd (set_over_voltage_protection self v s)))"
    by (rule impI, erule keepsD[OF keeps_set_ovp])
  from 1 2 3 4 5 6 7 8 9 show ?thesis by (intro conjI)
qed

theorem settle_delays_kept_witness:
  "settled (trace w0) \<and> \<not> is_adr '':VOL?;'' \<and> \<not> is_adr '':OUT1;'' \<and>
   settled (trace (snd (issue [(zup_at 1, '':VOL?;''), (zup_at 2, '':OUT1;'')] w0))) \<and>
   settled (trace port0) \<and>
   settled (trace (snd (for_each ZUp_WriteCommand ['':ADR01;'', '':OUT0;''] port0))) \<and>
   settled (trace (snd (ZUps_off [1, 2] ''COM1'' 9600 port0))) \<and>
   \<not> settled [Write '':ADR01;'', Sleep 20] \<and> \<not> settled [Write '':OUT1;'', Write '':OUT0;'']"
  using settle_delays_kept[where s = w0 and cs = "[(zup_at 1, '':VOL?;''), (zup_at 2, '':OUT1;'')]"
      and t = port0 and ds = "['':ADR01;'', '':OUT0;'']" and Addresses = "[1, 2]"
      and SerialPort = "''COM1''" and Baud = 9600]
  by (simp add: settled_def w0_def port0_def)

lemma query_eq:
  "incoming s = reply # rest \<Longrightarrow>
   fst (bnd (write_command self c) (\<lambda>_. bnd read_response (\<lambda>r. ret (r = lit))) s) =
   Inr (replace reply CRLF [] = lit)"
  by (simp add: bnd_def write_command_run read_response_run ret_def)

section \<open>The service-request queries\<close>

text \<open>
  C10. The three service-request queries answer \<open>True\<close> exactly when the response, after
  the line ending is removed, is \<open>:QV1;\<close>, \<open>:QT1;\<close> and \<open>:QF1;\<close> respectively, colon and
  semicolon included, whereas the other binary-state queries compare with the bare
  literals \<open>OT1\<close>, \<open>AS1\<close>, \<open>FD1\<close> and \<open>RM2\<close>. So for every response of the bare
  three-character form, such as \<open>QV1\<close>, the three queries answer \<open>False\<close>.
\<close>

theorem service_request_queries_expect_framed_literal:
  assumes "incoming s = reply # rest"
  shows "fst (service_request_over_voltage_on self s) = Inr (replace reply CRLF [] = '':QV1;'') \<and>
         fst (service_request_over_temperature_on self s) = Inr (replace reply CRLF [] = '':QT1;'') \<and>
         fst (service_request_foldback_on self s) = Inr (replace reply CRLF [] = '':QF1;'') \<and>
         fst (power_on self s) = Inr (replace reply CRLF [] = ''OT1'') \<and>
         fst (autostart_on self s) = Inr (replace reply CRLF [] = ''AS1'') \<and>
         fst (foldback_on self s) = Inr (replace reply CRLF [] = ''FD1'') \<and>
         fst (remote_latched self s) = Inr (replace reply CRLF [] = ''RM2'') \<and>
         (length (replace reply CRLF []) = 3 \<longrightarrow>
            fst (service_request_over_voltage_on self s) = Inr False \<and>
            fst (service_request_over_temperature_on self s) = Inr False \<and>
            fst (service_request_foldback_on self s) = Inr False)"
  using assms
  unfolding service_request_over_voltage_on_def service_request_over_temperature_on_def
    service_request_foldback_on_def power_on_def autostart_on_def foldback_on_def remote_latched_def
  by (auto simp: query_eq)

lemma strip_QV1: "replace (CHR ''Q'' # CHR ''V'' # CHR ''1'' # CRLF) CRLF [] = ''QV1''"
  by code_simp

theorem service_request_queries_expect_framed_literal_witness:
  "incoming (w0\<lparr>incoming := [''QV1'' @ CRLF]\<rparr>) = (''QV1'' @ CRLF) # [] \<and>
   length (replace (''QV1'' @ CRLF) CRLF []) = 3 \<and>
   fst (service_request_over_voltage_on (zup_at 1) (w0\<lparr>incoming := [''QV1'' @ CRLF]\<rparr>)) = Inr False"
  using service_request_queries_expect_framed_literal[of "w0\<lparr>incoming := [''QV1'' @ CRLF]\<rparr>" "''QV1'' @ CRLF" "[]" "zup_at 1"]
  by (simp add: strip_QV1)

section \<open>What construction sends\<close>

text \<open>
  C6, as the code has it. Constructing a \<open>Zup\<close> with a valid address on a port with a valid
  baud rate sends exactly the remote-latch command \<open>:RMT2;\<close> and then the model query
  \<open>:MDL?;\<close>, preceded by \<open>ADR\<close> when the port is not yet listening to that address, and
  nothing else, whatever the supply answers. A construction refused for its address, its
  baud rate or the type of its address sends nothing and leaves the state as it was.
\<close>

theorem construction_commands:
  "(in_ADDRESS_RANGE addr \<and> baudrate s \<in> set BAUD_RATES \<longrightarrow>
      writes (trace (snd (init (PyInt addr) s))) =
        writes (trace s) @
        (if listening_addresses s (port s) = Some addr then [] else [adr_command addr]) @
        ['':RMT2;'', '':MDL?;'']) \<and>
   (\<not> (in_ADDRESS_RANGE addr \<and> baudrate s \<in> set BAUD_RATES) \<longrightarrow>
      init (PyInt addr) s = (Inl ValueError, s)) \<and>
   init (PyFloat x) s = (Inl TypeError, s) \<and>
   init (PyStr t) s = (Inl TypeError, s) \<and>
   init PyNone s = (Inl TypeError, s)"
proof -
  have a: "writes (trace (snd (init (PyInt addr) s))) =
        writes (trace s) @
        (if listening_addresses s (port s) = Some addr then [] else [adr_command addr]) @
        ['':RMT2;'', '':MDL?;'']"
    if "in_ADDRESS_RANGE addr" "baudrate s \<in> set BAUD_RATES"
    using that
    by (simp add: init_state get_model_def bnd_def write_command_run read_response_run)
  have b: "init (PyInt addr) s = (Inl ValueError, s)"
    if "\<not> (in_ADDRESS_RANGE addr \<and> baudrate s \<in> set BAUD_RATES)"
    using that by (auto simp: init_def raise_def bnd_def)
  show ?thesis
    using a b by (simp add: init_def raise_def)
qed

theorem construction_commands_witness:
  "in_ADDRESS_RANGE 1 \<and> baudrate w36 \<in> set BAUD_RATES \<and>
   writes (trace (snd (init (PyInt 1) w36))) = ['':ADR01;'', '':RMT2;'', '':MDL?;''] \<and>
   \<not> in_ADDRESS_RANGE 42 \<and> init (PyInt 42) w36 = (Inl ValueError, w36)"
  using construction_commands[of 1 w36] construction_commands[of 42 w36]
  by (simp add: in_ADDRESS_RANGE_def BAUD_RATES_def w36_def w0_def adr_command_def rjust_def
      show_int_def show_nat.simps digit_char_def)

theorem construction_latches_remote_counterexample:
  "fst (init (PyInt 1) w36) = Inr (zup_at 1) \<and>
   writes (trace (snd (init (PyInt 1) w36))) = ['':ADR01;'', '':RMT2;'', '':MDL?;''] \<and>
   writes (trace (snd (init (PyInt 1) w36))) \<noteq> ['':ADR01;'', '':MDL?;'']"
  by code_simp

lemma emits_set_voltage:
  "emits (\<lambda>c. c \<in> {adr_command (address self), '':UVP?;'', '':OVP?;''}) (\<lambda>_. True)
     (set_voltage self arg)"
  unfolding set_voltage_def get_under_voltage_protection_def get_over_voltage_protection_def
  by (cases "number_of arg") (auto intro!: emit)

lemma query_float_writes:
  "\<exists>ws. writes (trace (snd (query_float self c p s))) = writes (trace s) @ ws @ [c]"
proof -
  have st: "stateless (to_float x)" for x :: string
    by simp
  have "snd (query_float self c p s) = snd (read_response (snd (write_command self c s)))"
    unfolding query_float_def
    by (simp add: bnd_def[of "write_command self c"] write_command_run snd_bnd_stateless)
  then show ?thesis
    by (simp add: read_response_run write_command_run)
qed

section \<open>What a failing set\_voltage sends\<close>



lemma window_run:
  "fst (set_voltage (zup_at 1) (PyFloat 20) wq) = Inl ValueError \<and>
   writes (trace (snd (set_voltage (zup_at 1) (PyFloat 20) wq))) =
     ['':UVP?;'', '':OVP?;'', '':UVP?;'', '':OVP?;'']"
  by code_simp

lemma above_rated_run:
  "fst (set_voltage (zup_at 1) (PyFloat 37) w_open) = Inr () \<and>
   writes (trace (snd (set_voltage (zup_at 1) (PyFloat 37) w_open))) =
     ['':UVP?;'', '':OVP?;'', '':VOL37.00;'']"
  by code_simp



lemma seq_assoc: "seq (seq a b) c = seq a (seq b c)"
  by (auto simp: seq_def bnd_def fun_eq_iff split: prod.splits sum.splits)

lemma emits_for_each_set:
  "(\<And>x. x \<in> set xs \<Longrightarrow> emits P (\<lambda>c. P c \<and> Q c) (body x)) \<Longrightarrow> emits P Q (for_each body xs)"
  by (induction xs) (auto intro: emits_ret emits_bnd)

lemma emits_for_acc_set:
  "(\<And>x a. x \<in> set xs \<Longrightarrow> emits P (\<lambda>c. P c \<and> Q c) (body x a)) \<Longrightarrow>
   emits P Q (for_acc body xs acc)"
  by (induction xs arbitrary: acc) (auto intro: emits_ret emits_bnd)

lemma emits_VerifyAddresses [emit]: "emits P Q (ZUps_VerifyAddresses as)"
  by (simp add: ZUps_VerifyAddresses_def Let_def emits_ret emits_raise)

lemma emits_VerifyBaud [emit]: "emits P Q (ZUps_VerifyBaud b)"
  by (simp add: ZUps_VerifyBaud_def emits_ret emits_raise)

lemma emits_GetPortSerial [emit]: "emits P Q (ZUps_GetPortSerial p b)"
  by (simp add: emits_def ZUps_GetPortSerial_def)

lemma emits_ReadStatus:
  "(\<And>c. c \<in> set status_queries \<Longrightarrow> P c \<and> Q c) \<Longrightarrow> P (ADR a) \<and> Q (ADR a) \<Longrightarrow>
   emits P Q (ZUp_ReadStatus a)"
  unfolding ZUp_ReadStatus_def ZUp_ReadResponse_def
  by (intro emits_seq emits_for_acc_set emits_bnd emits_ZUp_WriteCommand emits_readline emits_ret)
     auto

lemma status_queries_not_cleanup:
  "c \<in> set status_queries \<Longrightarrow> c \<notin> {'':RMT1;'', '':DCL;'', '':FLD2;'', '':AST0;''}"
  by (auto simp: status_queries_def)

lemma ADR_not_cleanup: "ADR a \<notin> {'':RMT1;'', '':DCL;'', '':FLD2;'', '':AST0;''}"
  by (simp add: ADR_def)

lemma emits_SetPower_off:
  "emits (\<lambda>c. c \<notin> {'':RMT1;'', '':DCL;'', '':FLD2;'', '':AST0;''})
         (\<lambda>c. c \<notin> {'':RMT1;'', '':DCL;'', '':FLD2;'', '':AST0;''}) (ZUps_SetPower A st)"
  unfolding ZUps_SetPower_def
  by (intro emits_for_each emits_seq emits_if emits_ZUp_WriteCommand)
     (simp_all add: ADR_not_cleanup[simplified])

lemma emits_VerifyPower_off:
  "emits (\<lambda>c. c \<notin> {'':RMT1;'', '':DCL;'', '':FLD2;'', '':AST0;''})
         (\<lambda>c. c \<notin> {'':RMT1;'', '':DCL;'', '':FLD2;'', '':AST0;''}) (ZUps_VerifyPower A st)"
  unfolding ZUps_VerifyPower_def ZUp_ReadResponse_def
  by (intro emits_for_acc emits_seq emits_bnd emits_if emits_ZUp_WriteCommand emits_readline
        emits_ret emits_raise emits_close emits_ReadStatus)
     (use status_queries_not_cleanup ADR_not_cleanup in \<open>simp_all\<close>)

lemma emits_off_prefix:
  "emits (\<lambda>c. c \<notin> {'':RMT1;'', '':DCL;'', '':FLD2;'', '':AST0;''})
         (\<lambda>c. c \<notin> {'':RMT1;'', '':DCL;'', '':FLD2;'', '':AST0;''}) (off_prefix A P B)"
  unfolding off_prefix_def
  by (intro emits_seq emits_VerifyAddresses emits_VerifyBaud emits_GetPortSerial)
     (use emits_SetPower_off emits_VerifyPower_off in \<open>simp_all\<close>)

lemma ZUps_off_split: "ZUps_off A P B = seq (off_prefix A P B) (seq (ZUps_CleanUp A) serial_close)"
  by (simp add: ZUps_off_def off_prefix_def seq_assoc)

lemma CleanUp_run:
  "fst (ZUps_CleanUp A s) = Inr () \<and>
   writes (trace (snd (ZUps_CleanUp A s))) = writes (trace s) @ concat (map cleanup_block A)"
proof (induction A arbitrary: s)
  case Nil
  then show ?case by (simp add: ZUps_CleanUp_def ret_def)
next
  case (Cons a A)
  let ?one = "seq (ZUp_WriteCommand (ADR a)) (
        seq (ZUp_WriteCommand '':RMT1;'') (
        seq (ZUp_WriteCommand '':DCL;'') (
        seq (ZUp_WriteCommand '':FLD2;'') (
        ZUp_WriteCommand '':AST0;''))))"
  have one: "fst (?one s) = Inr () \<and> writes (trace (snd (?one s))) = writes (trace s) @ cleanup_block a"
    by (simp add: seq_def bnd_def ZUp_WriteCommand_run cleanup_block_def)
  have step: "ZUps_CleanUp (a # A) s = ZUps_CleanUp A (snd (?one s))"
    using one by (cases "?one s") (simp add: ZUps_CleanUp_def bnd_def)
  show ?case
    unfolding step using Cons.IH[of "snd (?one s)"] one by simp
qed

section \<open>Cleanup after power-off\<close>


lemmas run_simps = seq_def bnd_def ret_def raise_def ZUp_WriteCommand_run readline_def
  serial_close_def sleep_def ZUp_ReadResponse_def to_float_def str_index_def

lemma is_adr_ADR [simp]: "is_adr (ADR a)"
  by (simp add: ADR_def)

lemma ADR_1: "ADR 1 = '':ADR01;''"
  by code_simp

lemma ADR_2: "ADR 2 = '':ADR02;''"
  by code_simp

lemma lower_off: "lower ''off'' = ''off''"
  by code_simp

lemma upper_off: "upper ''off'' = ''OFF''"
  by code_simp

lemma slice_nat: "slice s (int i) (int j) = take (j - i) (drop i s)"
  by (cases "i \<le> length s"; cases "j \<le> length s") (auto simp: slice_def Let_def min_def)

lemma slice_5_6: "slice s 5 6 = take 1 (drop 5 s)"
  using slice_nat[of s 5 6] by simp

lemmas off_simps = ZUps_off_def ZUps_VerifyAddresses_def ZUps_VerifyBaud_def ZUps_GetPortSerial_def
  ZUps_SetPower_def ZUps_VerifyPower_def ZUps_CleanUp_def ZUp_ReadStatus_def status_queries_def
  run_simps port0_def ADR_1 ADR_2 lower_off upper_off slice_5_6 CRLF_def cleanup_block_def

lemma off_all_passed:
  "fst (ZUps_off [1, 2] ''COM1'' 9600 port_all_off) = Inr () \<and>
   writes (trace (snd (ZUps_off [1, 2] ''COM1'' 9600 port_all_off))) =
     ['':ADR01;'', '':OUT0;'', '':ADR02;'', '':OUT0;'',
      '':ADR01;'', '':STA?;'', '':ADR02;'', '':STA?;''] @
     cleanup_block 1 @ cleanup_block 2"
  by (simp add: off_simps port_all_off_def)

lemma off_one_still_on:
  "fst (ZUps_off [1, 2] ''COM1'' 9600 port_off) = Inl RuntimeError \<and>
   writes (trace (snd (ZUps_off [1, 2] ''COM1'' 9600 port_off))) =
     ['':ADR01;'', '':OUT0;'', '':ADR02;'', '':OUT0;'',
      '':ADR01;'', '':STA?;'', '':ADR02;'', '':STA?;'', '':ADR02;''] @ status_queries"
  by (simp add: off_simps port_off_def)



section \<open>The format of the over-voltage command\<close>

text \<open>
  C5, at a failing input. For a 10 V supply the catalog gives the over-voltage limit the
  format \<open>2.1\<close> and the under-voltage limit the format \<open>1.2\<close>. The object constructed for
  such a supply, asked to set the over-voltage limit to 13.0 V (in range, and above 105% of
  the set voltage 5 V), sends \<open>:OVP13.00;\<close>: the argument rendered with the under-voltage
  format, where the over-voltage format gives \<open>13.0\<close>.
\<close>

theorem ovp_command_uses_uvp_format:
  "fst (init (PyInt 1) w10) = Inr z10 \<and>
   lim_Format (OVP z10) = the (FORMATS (2, 1)) \<and>
   lim_Format (UVP z10) = the (FORMATS (1, 2)) \<and>
   lim_min (OVP z10) \<le> 13 \<and> 13 \<le> lim_MAX (OVP z10) \<and>
   fst (set_over_voltage_protection z10 (PyFloat 13) w10_set) = Inr () \<and>
   writes (trace (snd (set_over_voltage_protection z10 (PyFloat 13) w10_set))) =
     ['':VOL!;'', '':OVP13.00;''] \<and>
   apply_format (lim_Format (OVP z10)) 13 = ''13.0'' \<and>
   apply_format (lim_Format (UVP z10)) 13 = ''13.00''"
  by code_simp

section \<open>The current tolerance\<close>

text \<open>
  C3, at failing inputs. The factor \<open>1 + _ZUp_CUR_TOLERANCE\<close> of both current checks is 6.
  For a 6 A supply the validation of \<open>ZUps_ON\<close> accepts a requested current of 12 A, above
  \<open>6 * 1.05\<close>, and rejects only beyond 36 A; the verification after energizing passes an
  actual current of 5 A for a requested 1 A, above \<open>1 * 1.05\<close>.
\<close>

theorem current_tolerance_is_sixfold:
  "(\<forall>A :: rat. A * (1 + ZUp_CUR_TOLERANCE) = 6 * A) \<and>
   fst (ZUps_VerifySetVAs [\<lparr>Address = 1, Voltage = 5, Amperage = 12, Foldback = ''FLD_off''\<rparr>]
          port36) = Inr () \<and>
   (6 :: rat) * (105 / 100) < 12 \<and>
   fst (ZUps_VerifySetVAs [\<lparr>Address = 1, Voltage = 5, Amperage = 37, Foldback = ''FLD_off''\<rparr>]
          port36) = Inl ValueError \<and>
   fst (ZUps_VerifyActualVAs [\<lparr>Address = 1, Voltage = 5, Amperage = 1, Foldback = ''FLD_off''\<rparr>]
          port_actual) = Inr () \<and>
   (1 :: rat) * (105 / 100) < 5"
proof -
  have a: "\<forall>A :: rat. A * (1 + ZUp_CUR_TOLERANCE) = 6 * A"
    by (simp add: ZUp_CUR_TOLERANCE_def)
  have b: "fst (ZUps_VerifySetVAs [\<lparr>Address = 1, Voltage = 5, Amperage = 12, Foldback = ''FLD_off''\<rparr>]
          port36) = Inr ()"
    by code_simp
  have c: "fst (ZUps_VerifySetVAs [\<lparr>Address = 1, Voltage = 5, Amperage = 37, Foldback = ''FLD_off''\<rparr>]
          port36) = Inl ValueError"
    by code_simp
  have d: "fst (ZUps_VerifyActualVAs [\<lparr>Address = 1, Voltage = 5, Amperage = 1, Foldback = ''FLD_off''\<rparr>]
          port_actual) = Inr ()"
    by code_simp
  show ?thesis using a b c d by simp
qed

lemma GetModel_writes:
  "writes (trace (snd (ZUp_GetModel s))) = writes (trace s) @ ['':MDL?;'']"
proof -
  have st: "stateless (bnd (str_index MDL CHR ''('') (\<lambda>i.
              bnd (str_index MDL CHR '')'') (\<lambda>j. ret (slice MDL (int i + 1) (int j)))))" for MDL
    by (intro stateless_bnd) simp_all
  have "snd (ZUp_GetModel s) = snd (readline (snd (ZUp_WriteCommand '':MDL?;'' s)))"
    unfolding ZUp_GetModel_def ZUp_ReadResponse_def seq_def
    by (simp add: bnd_def[of "ZUp_WriteCommand '':MDL?;''"] ZUp_WriteCommand_run
        snd_bnd_stateless[OF st])
  then show ?thesis
    by (simp add: ZUp_WriteCommand_run readline_def split: list.splits)
qed

lemma readline_trace: "trace (snd (readline s)) = trace s"
  by (simp add: readline_def split: list.splits)

lemma to_float_state: "snd (to_float x s) = s"
  by (simp add: to_float_def ret_def raise_def split: option.splits)

lemma PowerVA_block:
  assumes "fst (ZUp_PowerVA ZUp s) = Inr ()"
  shows "\<exists>MDL r. writes (trace (snd (ZUp_PowerVA ZUp s))) = writes (trace s) @ power_block ZUp MDL r"
proof -
  let ?pre = "seq (ZUp_WriteCommand (ADR (Address ZUp))) (
     seq (ZUp_WriteCommand '':RMT2;'') (
     seq (ZUp_WriteCommand '':DCL;'') (
     seq (ZUp_WriteCommand '':AST0;'') (
     seq (ZUp_WriteCommand (cmd_FLD ZUp)) (
     seq (ZUp_WriteCommand '':SRV0;'') (
     seq (ZUp_WriteCommand '':SRT0;'') (
     ZUp_WriteCommand '':SRF0;'')))))))"
  obtain s1 where s1: "?pre s = (Inr (), s1)"
    and w1: "writes (trace s1) = writes (trace s) @
       [ADR (Address ZUp), '':RMT2;'', '':DCL;'', '':AST0;'', cmd_FLD ZUp,
        '':SRV0;'', '':SRT0;'', '':SRF0;'']"
    by (simp add: seq_def bnd_def ZUp_WriteCommand_run)
  obtain r2 s2 where g: "ZUp_GetModel s1 = (r2, s2)" by (cases "ZUp_GetModel s1")
  have w2: "writes (trace s2) = writes (trace s1) @ ['':MDL?;'']"
    using GetModel_writes[of s1] g by simp
  let ?after = "\<lambda>MDL.
     seq (ZUp_WriteCommand (cmd_UVPmin MDL ZUp)) (
     seq (ZUp_WriteCommand (cmd_OVPmax MDL ZUp)) (
     seq (ZUp_WriteCommand '':CUR!;'') (
     bnd ZUp_ReadResponse (\<lambda>SA.
     bnd (to_float (slice SA 2 (int (length SA) - 2))) (\<lambda>sa.
     seq (if Amperage ZUp > sa then ZUp_WriteCommand (cmd_CUR MDL ZUp) else ret ()) (
     seq (ZUp_WriteCommand (cmd_VOL MDL ZUp)) (
     seq (ZUp_WriteCommand '':OUT1;'') (
     seq (sleep 250) (
     seq (ZUp_WriteCommand (cmd_CUR MDL ZUp)) (
     seq (ZUp_WriteCommand (cmd_OVP MDL ZUp)) (
     ZUp_WriteCommand (cmd_UVP MDL ZUp))))))))))))"
  have whole: "ZUp_PowerVA ZUp s = bnd ZUp_GetModel ?after s1"
    using s1 unfolding ZUp_PowerVA_def
    by (simp add: seq_def bnd_def ZUp_WriteCommand_run)
  show ?thesis
  proof (cases r2)
    case (Inl e)
    then show ?thesis using assms whole g by (simp add: bnd_def)
  next
    case (Inr MDL)
    have a: "ZUp_PowerVA ZUp s = ?after MDL s2"
      using whole g Inr by (simp add: bnd_def)
    let ?s3 = "snd (seq (ZUp_WriteCommand (cmd_UVPmin MDL ZUp)) (
                    seq (ZUp_WriteCommand (cmd_OVPmax MDL ZUp)) (
                    ZUp_WriteCommand '':CUR!;'')) s2)"
    obtain SA s4 where rd: "readline ?s3 = (Inr SA, s4)"
      by (cases "incoming ?s3") (auto simp: readline_def)
    have w4: "writes (trace s4) = writes (trace s2) @ [cmd_UVPmin MDL ZUp, cmd_OVPmax MDL ZUp, '':CUR!;'']"
      using readline_trace[of ?s3] rd by (simp add: seq_def bnd_def ZUp_WriteCommand_run)
    let ?x = "slice SA 2 (int (length SA) - 2)"
    obtain r5 where f: "to_float ?x s4 = (r5, s4)"
      using to_float_state[of ?x s4] by (cases "to_float ?x s4") auto
    let ?tail = "\<lambda>sa.
     seq (if Amperage ZUp > sa then ZUp_WriteCommand (cmd_CUR MDL ZUp) else ret ()) (
     seq (ZUp_WriteCommand (cmd_VOL MDL ZUp)) (
     seq (ZUp_WriteCommand '':OUT1;'') (
     seq (sleep 250) (
     seq (ZUp_WriteCommand (cmd_CUR MDL ZUp)) (
     seq (ZUp_WriteCommand (cmd_OVP MDL ZUp)) (
     ZUp_WriteCommand (cmd_UVP MDL ZUp)))))))"
    have b: "?after MDL s2 = bnd (to_float ?x) ?tail s4"
      using rd by (simp add: seq_def bnd_def ZUp_WriteCommand_run ZUp_ReadResponse_def)
    show ?thesis
    proof (cases r5)
      case (Inl e)
      then show ?thesis using assms a b f by (simp add: bnd_def)
    next
      case (Inr sa)
      have c: "ZUp_PowerVA ZUp s = ?tail sa s4"
        using a b f Inr by (simp add: bnd_def)
      have "writes (trace (snd (?tail sa s4))) = writes (trace s4) @
              (if Amperage ZUp > sa then [cmd_CUR MDL ZUp] else []) @
              [cmd_VOL MDL ZUp, '':OUT1;'', cmd_CUR MDL ZUp, cmd_OVP MDL ZUp, cmd_UVP MDL ZUp]"
        by (simp add: seq_def bnd_def ZUp_WriteCommand_run sleep_def ret_def)
      then have "writes (trace (snd (ZUp_PowerVA ZUp s))) =
                 writes (trace s) @ power_block ZUp MDL (Amperage ZUp > sa)"
        unfolding c using w1 w2 w4 by (simp add: power_block_def)
      then show ?thesis by blast
    qed
  qed
qed

lemma seq_success:
  "fst (seq m n s) = Inr y \<Longrightarrow> fst (m s) = Inr () \<and> seq m n s = n (snd (m s))"
  by (cases "m s") (auto simp: seq_def bnd_def split: sum.splits)

lemma for_each_Cons_success:
  "fst (for_each body (x # xs) s) = Inr y \<Longrightarrow>
   fst (body x s) = Inr () \<and> for_each body (x # xs) s = for_each body xs (snd (body x s))"
  by (cases "body x s") (auto simp: bnd_def split: sum.splits)

lemma PowerVAs_blocks:
  "fst (ZUps_PowerVAs ZUps s) = Inr () \<Longrightarrow>
   \<exists>ms. length ms = length ZUps \<and>
        writes (trace (snd (ZUps_PowerVAs ZUps s))) =
          writes (trace s) @ concat (map (\<lambda>(Z, MDL, r). power_block Z MDL r) (zip ZUps ms))"
  unfolding ZUps_PowerVAs_def
proof (induction ZUps arbitrary: s)
  case Nil
  then show ?case by (simp add: ret_def)
next
  case (Cons Z Zs)
  let ?s1 = "snd (ZUp_PowerVA Z s)"
  from for_each_Cons_success[OF Cons.prems]
  have ok: "fst (ZUp_PowerVA Z s) = Inr ()"
    and step: "for_each ZUp_PowerVA (Z # Zs) s = for_each ZUp_PowerVA Zs ?s1"
    by auto
  obtain MDL r where b: "writes (trace ?s1) = writes (trace s) @ power_block Z MDL r"
    using PowerVA_block[OF ok] by blast
  have "fst (for_each ZUp_PowerVA Zs ?s1) = Inr ()"
    using Cons.prems step by simp
  from Cons.IH[OF this] obtain ms where
    l: "length ms = length Zs" and
    w: "writes (trace (snd (for_each ZUp_PowerVA Zs ?s1))) =
        writes (trace ?s1) @ concat (map (\<lambda>(Z, MDL, r). power_block Z MDL r) (zip Zs ms))"
    by blast
  show ?case
    unfolding step using l w b
    by (intro exI[of _ "(MDL, r) # ms"]) simp
qed

lemma grows_VerifyFoldbacks [emit]: "emits P Q (ZUps_VerifyFoldbacks zs)"
  by (simp add: ZUps_VerifyFoldbacks_def Let_def emits_ret emits_raise)

lemma grows_VerifySetVAs: "emits (\<lambda>_. True) (\<lambda>_. True) (ZUps_VerifySetVAs zs)"
  unfolding ZUps_VerifySetVAs_def ZUp_VerifySetVA_def ZUp_GetModel_def ZUp_ReadResponse_def
  by (intro emit) simp_all

lemma grows_VerifyActualVAs: "emits (\<lambda>_. True) (\<lambda>_. True) (ZUps_VerifyActualVAs zs)"
  unfolding ZUps_VerifyActualVAs_def ZUp_VerifyActualVA_def ZUp_ReadResponse_def
  by (intro emit emits_ReadStatus) simp_all

lemma grows_on_prefix: "emits (\<lambda>_. True) (\<lambda>_. True) (on_prefix Z P B)"
  unfolding on_prefix_def
  by (intro emits_seq emits_VerifyAddresses grows_VerifyFoldbacks emits_VerifyBaud emits_GetPortSerial)
     (simp_all add: grows_VerifySetVAs)

lemma ZUps_ON_split:
  "ZUps_ON Z P B = seq (on_prefix Z P B) (seq (ZUps_PowerVAs Z) (seq (ZUps_VerifyActualVAs Z) serial_close))"
  by (simp add: ZUps_ON_def on_prefix_def seq_assoc Let_def)

lemma grows:
  "emits (\<lambda>_. True) (\<lambda>_. True) m \<Longrightarrow> \<exists>ws. writes (trace (snd (m s))) = writes (trace s) @ ws"
  unfolding emits_def by blast

section \<open>The order of the commands of power-on\<close>

text \<open>
  C1, as the code has it. \<open>_ZUps_PowerVAs\<close> goes through the plan supply by supply: when it
  returns, what it has written is, entry after entry in plan order, the complete block of
  commands of that entry (for some model reply and some choice of raising the current
  first), so every command of an entry precedes every command of the next. Within a block
  the minimum \<open>UVP\<close> and maximum \<open>OVP\<close> come before \<open>VOL\<close>, \<open>CUR\<close> and \<open>OUT1\<close>, and
  \<open>OUT1\<close> before the final \<open>CUR\<close>, \<open>OVP\<close> and \<open>UVP\<close>, as \<open>power_block\<close> lists them. In a
  successful \<open>ZUps_ON\<close> these blocks stand between the commands of the validation and
  those of the verification.
\<close>

theorem power_on_goes_supply_by_supply:
  "(fst (ZUps_PowerVAs ZUps s) = Inr () \<longrightarrow>
      (\<exists>ms. length ms = length ZUps \<and>
            writes (trace (snd (ZUps_PowerVAs ZUps s))) =
              writes (trace s) @ concat (map (\<lambda>(Z, MDL, r). power_block Z MDL r) (zip ZUps ms)))) \<and>
   (fst (ZUps_ON ZUps SerialPort Baud s) = Inr () \<longrightarrow>
      (\<exists>before ms after. length ms = length ZUps \<and>
            writes (trace (snd (ZUps_ON ZUps SerialPort Baud s))) =
              writes (trace s) @ before @
              concat (map (\<lambda>(Z, MDL, r). power_block Z MDL r) (zip ZUps ms)) @ after))"
proof (intro conjI impI)
  assume "fst (ZUps_PowerVAs ZUps s) = Inr ()"
  then show "\<exists>ms. length ms = length ZUps \<and>
            writes (trace (snd (ZUps_PowerVAs ZUps s))) =
              writes (trace s) @ concat (map (\<lambda>(Z, MDL, r). power_block Z MDL r) (zip ZUps ms))"
    by (rule PowerVAs_blocks)
next
  assume ok: "fst (ZUps_ON ZUps SerialPort Baud s) = Inr ()"
  let ?pre = "on_prefix ZUps SerialPort Baud"
  let ?post = "seq (ZUps_VerifyActualVAs ZUps) serial_close"
  let ?s1 = "snd (?pre s)"
  let ?s2 = "snd (ZUps_PowerVAs ZUps ?s1)"
  from seq_success[OF ok[unfolded ZUps_ON_split]]
  have e1: "ZUps_ON ZUps SerialPort Baud s = seq (ZUps_PowerVAs ZUps) ?post ?s1"
    by (simp add: ZUps_ON_split)
  then have ok1: "fst (seq (ZUps_PowerVAs ZUps) ?post ?s1) = Inr ()"
    using ok by simp
  from seq_success[OF ok1]
  have ok2: "fst (ZUps_PowerVAs ZUps ?s1) = Inr ()"
    and e2: "seq (ZUps_PowerVAs ZUps) ?post ?s1 = ?post ?s2"
    by auto
  obtain before where b: "writes (trace ?s1) = writes (trace s) @ before"
    using grows[OF grows_on_prefix] by blast
  obtain ms where l: "length ms = length ZUps"
    and m: "writes (trace ?s2) =
            writes (trace ?s1) @ concat (map (\<lambda>(Z, MDL, r). power_block Z MDL r) (zip ZUps ms))"
    using PowerVAs_blocks[OF ok2] by blast
  have "emits (\<lambda>_. True) (\<lambda>_. True) ?post"
    by (intro emits_seq emits_close) (simp_all add: grows_VerifyActualVAs)
  then obtain after where a: "writes (trace (snd (?post ?s2))) = writes (trace ?s2) @ after"
    using grows by blast
  show "\<exists>before ms after. length ms = length ZUps \<and>
            writes (trace (snd (ZUps_ON ZUps SerialPort Baud s))) =
              writes (trace s) @ before @
              concat (map (\<lambda>(Z, MDL, r). power_block Z MDL r) (zip ZUps ms)) @ after"
    unfolding e1 e2 using l a m b by (intro exI[of _ before] exI[of _ ms] exI[of _ after]) simp
qed

lemma PowerVA_run:
  assumes "incoming s = m # l # rest"
    and "index_of m CHR ''('' = Some i" and "index_of m CHR '')'' = Some j"
    and "py_float (slice l 2 (int (length l) - 2)) = Some sa"
  shows "fst (ZUp_PowerVA Z s) = Inr () \<and>
         writes (trace (snd (ZUp_PowerVA Z s))) =
           writes (trace s) @ power_block Z (slice m (int i + 1) (int j)) (Amperage Z > sa) \<and>
         incoming (snd (ZUp_PowerVA Z s)) = rest"
  using assms
  by (simp add: ZUp_PowerVA_def ZUp_GetModel_def run_simps power_block_def)

lemma plan2_replies:
  "index_of (''Nemic-Lambda ZUP(36V-6A)'' @ CRLF) CHR ''('' = Some 16"
  "index_of (''Nemic-Lambda ZUP(36V-6A)'' @ CRLF) CHR '')'' = Some 23"
  "slice (''Nemic-Lambda ZUP(36V-6A)'' @ CRLF) (int 16 + 1) (int 23) = ''36V-6A''"
  "py_float (slice (''SA0.500'' @ CRLF) 2 (int (length (''SA0.500'' @ CRLF)) - 2)) = Some (1 / 2)"
  "index_of (''Nemic-Lambda ZUP(20V-10A)'' @ CRLF) CHR ''('' = Some 16"
  "index_of (''Nemic-Lambda ZUP(20V-10A)'' @ CRLF) CHR '')'' = Some 24"
  "slice (''Nemic-Lambda ZUP(20V-10A)'' @ CRLF) (int 16 + 1) (int 24) = ''20V-10A''"
  "py_float (slice (''SA03.000'' @ CRLF) 2 (int (length (''SA03.000'' @ CRLF)) - 2)) = Some 3"
  by code_simp+

lemma plan2_blocks:
  "power_block \<lparr>Address = 1, Voltage = 33 / 10, Amperage = 1, Foldback = ''FLD_off''\<rparr> ''36V-6A'' True =
     ['':ADR01;'', '':RMT2;'', '':DCL;'', '':AST0;'', '':FLD2;'', '':SRV0;'', '':SRT0;'', '':SRF0;'',
      '':MDL?;'', '':UVP00.0;'', '':OVP40.0;'', '':CUR!;'', '':CUR1.000;'', '':VOL03.30;'',
      '':OUT1;'', '':CUR1.000;'', '':OVP03.6;'', '':UVP03.0;'']"
  "power_block \<lparr>Address = 2, Voltage = 5, Amperage = 1, Foldback = ''FLD_ON''\<rparr> ''20V-10A'' False =
     ['':ADR02;'', '':RMT2;'', '':DCL;'', '':AST0;'', '':FLD1;'', '':SRV0;'', '':SRT0;'', '':SRF0;'',
      '':MDL?;'', '':UVP00.0;'', '':OVP24.0;'', '':CUR!;'', '':VOL05.000;'',
      '':OUT1;'', '':CUR01.000;'', '':OVP05.5;'', '':UVP04.5;'']"
  by code_simp+

lemma VerifySetVA_run:
  assumes "incoming s = m # rest"
    and "index_of m CHR ''('' = Some i" and "index_of m CHR '')'' = Some j"
    and "slice m (int i + 1) (int j) = MDL"
    and "index_of MDL CHR ''V'' = Some k" and "py_float (slice MDL 0 (int k)) = Some V"
    and "index_of MDL CHR ''-'' = Some d" and "index_of MDL CHR ''A'' = Some a"
    and "py_float (slice MDL (int d + 1) (int a)) = Some A"
    and "0 \<le> Voltage Z" "Voltage Z \<le> V" "0 \<le> Amperage Z" "Amperage Z \<le> A * 6"
  shows "fst (ZUp_VerifySetVA Z F s) = Inr F \<and>
         writes (trace (snd (ZUp_VerifySetVA Z F s))) = writes (trace s) @ [ADR (Address Z), '':MDL?;''] \<and>
         incoming (snd (ZUp_VerifySetVA Z F s)) = rest"
  using assms
  by (simp add: ZUp_VerifySetVA_def ZUp_GetModel_def run_simps ZUp_CUR_TOLERANCE_def)

lemma VerifyActualVA_run:
  assumes "incoming s = av # aa # rest"
    and "py_float (slice av 2 (int (length av) - 2)) = Some V"
    and "py_float (slice aa 2 (int (length aa) - 2)) = Some A"
    and "Voltage Z * (9 / 10) \<le> V" "V \<le> Voltage Z * (11 / 10)"
    and "0 \<le> A" "A \<le> Amperage Z * 6"
  shows "fst (ZUp_VerifyActualVA Z F s) = Inr F \<and>
         writes (trace (snd (ZUp_VerifyActualVA Z F s))) =
           writes (trace s) @ [ADR (Address Z), '':VOL?;'', '':CUR?;''] \<and>
         incoming (snd (ZUp_VerifyActualVA Z F s)) = rest"
  using assms
  by (simp add: ZUp_VerifyActualVA_def run_simps ZUp_CUR_TOLERANCE_def ZUp_VOL_TOLERANCE_def)

lemma plan2_power_run:
  assumes inc: "incoming s =
     (''Nemic-Lambda ZUP(36V-6A)'' @ CRLF) # (''SA0.500'' @ CRLF) #
     (''Nemic-Lambda ZUP(20V-10A)'' @ CRLF) # (''SA03.000'' @ CRLF) # rest"
  shows "fst (ZUps_PowerVAs plan2 s) = Inr () \<and>
   writes (trace (snd (ZUps_PowerVAs plan2 s))) = writes (trace s) @
     ['':ADR01;'', '':RMT2;'', '':DCL;'', '':AST0;'', '':FLD2;'', '':SRV0;'', '':SRT0;'', '':SRF0;'',
      '':MDL?;'', '':UVP00.0;'', '':OVP40.0;'', '':CUR!;'', '':CUR1.000;'', '':VOL03.30;'',
      '':OUT1;'', '':CUR1.000;'', '':OVP03.6;'', '':UVP03.0;'',
      '':ADR02;'', '':RMT2;'', '':DCL;'', '':AST0;'', '':FLD1;'', '':SRV0;'', '':SRT0;'', '':SRF0;'',
      '':MDL?;'', '':UVP00.0;'', '':OVP24.0;'', '':CUR!;'', '':VOL05.000;'',
      '':OUT1;'', '':CUR01.000;'', '':OVP05.5;'', '':UVP04.5;''] \<and>
   incoming (snd (ZUps_PowerVAs plan2 s)) = rest"
proof -
  let ?e1 = "\<lparr>Address = 1, Voltage = 33 / 10, Amperage = 1, Foldback = ''FLD_off''\<rparr>"
  let ?e2 = "\<lparr>Address = 2, Voltage = 5, Amperage = 1, Foldback = ''FLD_ON''\<rparr>"
  let ?s1 = "snd (ZUp_PowerVA ?e1 s)"
  from PowerVA_run[OF inc plan2_replies(1) plan2_replies(2) plan2_replies(4), of ?e1]
  have 1: "fst (ZUp_PowerVA ?e1 s) = Inr ()"
    and w1: "writes (trace ?s1) = writes (trace s) @ power_block ?e1 ''36V-6A'' True"
    and i1: "incoming ?s1 = (''Nemic-Lambda ZUP(20V-10A)'' @ CRLF) # (''SA03.000'' @ CRLF) # rest"
    by (simp_all only: plan2_replies(3)) (simp_all)
  from PowerVA_run[OF i1 plan2_replies(5) plan2_replies(6) plan2_replies(8), of ?e2]
  have 2: "fst (ZUp_PowerVA ?e2 ?s1) = Inr ()"
    and w2: "writes (trace (snd (ZUp_PowerVA ?e2 ?s1))) =
             writes (trace ?s1) @ power_block ?e2 ''20V-10A'' False"
    and i2: "incoming (snd (ZUp_PowerVA ?e2 ?s1)) = rest"
    by (simp_all only: plan2_replies(7)) (simp_all)
  have run: "ZUps_PowerVAs plan2 s = (Inr (), snd (ZUp_PowerVA ?e2 ?s1))"
    using 1 2
    by (cases "ZUp_PowerVA ?e1 s"; cases "ZUp_PowerVA ?e2 ?s1")
       (simp add: ZUps_PowerVAs_def plan2_def bnd_def ret_def)
  show ?thesis
    unfolding run using w1 w2 i2 by (simp only: plan2_blocks fst_conv snd_conv) simp
qed

lemma plan2_models:
  "index_of ''36V-6A'' CHR ''V'' = Some 2" "py_float (slice ''36V-6A'' 0 (int 2)) = Some 36"
  "index_of ''36V-6A'' CHR ''-'' = Some 3" "index_of ''36V-6A'' CHR ''A'' = Some 5"
  "py_float (slice ''36V-6A'' (int 3 + 1) (int 5)) = Some 6"
  "index_of ''20V-10A'' CHR ''V'' = Some 2" "py_float (slice ''20V-10A'' 0 (int 2)) = Some 20"
  "index_of ''20V-10A'' CHR ''-'' = Some 3" "index_of ''20V-10A'' CHR ''A'' = Some 6"
  "py_float (slice ''20V-10A'' (int 3 + 1) (int 6)) = Some 10"
  by code_simp+

lemma plan2_readbacks:
  "py_float (slice (''AV03.30'' @ CRLF) 2 (int (length (''AV03.30'' @ CRLF)) - 2)) = Some (33 / 10)"
  "py_float (slice (''AA0.100'' @ CRLF) 2 (int (length (''AA0.100'' @ CRLF)) - 2)) = Some (1 / 10)"
  "py_float (slice (''AV05.000'' @ CRLF) 2 (int (length (''AV05.000'' @ CRLF)) - 2)) = Some 5"
  "py_float (slice (''AA00.200'' @ CRLF) 2 (int (length (''AA00.200'' @ CRLF)) - 2)) = Some (2 / 10)"
  by code_simp+

lemma upper_plan2: "upper ''FLD_off'' = ''FLD_OFF''" "upper ''FLD_ON'' = ''FLD_ON''"
  by code_simp+

lemma plan2_on_run:
  "fst (ZUps_ON plan2 ''COM1'' 9600 port_on_plan2) = Inr () \<and>
   writes (trace (snd (ZUps_ON plan2 ''COM1'' 9600 port_on_plan2))) =
     ['':ADR01;'', '':MDL?;'', '':ADR02;'', '':MDL?;'',
      '':ADR01;'', '':RMT2;'', '':DCL;'', '':AST0;'', '':FLD2;'', '':SRV0;'', '':SRT0;'', '':SRF0;'',
      '':MDL?;'', '':UVP00.0;'', '':OVP40.0;'', '':CUR!;'', '':CUR1.000;'', '':VOL03.30;'',
      '':OUT1;'', '':CUR1.000;'', '':OVP03.6;'', '':UVP03.0;'',
      '':ADR02;'', '':RMT2;'', '':DCL;'', '':AST0;'', '':FLD1;'', '':SRV0;'', '':SRT0;'', '':SRF0;'',
      '':MDL?;'', '':UVP00.0;'', '':OVP24.0;'', '':CUR!;'', '':VOL05.000;'',
      '':OUT1;'', '':CUR01.000;'', '':OVP05.5;'', '':UVP04.5;'',
      '':ADR01;'', '':VOL?;'', '':CUR?;'', '':ADR02;'', '':VOL?;'', '':CUR?;'']"
proof -
  let ?e1 = "\<lparr>Address = 1, Voltage = 33 / 10, Amperage = 1, Foldback = ''FLD_off''\<rparr>"
  let ?e2 = "\<lparr>Address = 2, Voltage = 5, Amperage = 1, Foldback = ''FLD_ON''\<rparr>"
  let ?m36 = "''Nemic-Lambda ZUP(36V-6A)'' @ CRLF" and ?m20 = "''Nemic-Lambda ZUP(20V-10A)'' @ CRLF"
  let ?replies = "[''AV03.30'' @ CRLF, ''AA0.100'' @ CRLF, ''AV05.000'' @ CRLF, ''AA00.200'' @ CRLF]"
  let ?tail = "?m36 # (''SA0.500'' @ CRLF) # ?m20 # (''SA03.000'' @ CRLF) # ?replies"
  let ?s0 = "port_on_plan2\<lparr>port := ''COM1'', baudrate := 9600, is_open := True\<rparr>"
  have pre: "ZUps_ON plan2 ''COM1'' 9600 port_on_plan2 =
             seq (ZUps_VerifySetVAs plan2) (seq (ZUps_PowerVAs plan2)
               (seq (ZUps_VerifyActualVAs plan2) serial_close)) ?s0"
    by (simp add: ZUps_ON_def ZUps_GetAddresses_def ZUps_VerifyAddresses_def ZUps_VerifyFoldbacks_def
        ZUps_VerifyBaud_def ZUps_GetPortSerial_def plan2_def upper_plan2 seq_def bnd_def ret_def)
  have i0: "incoming ?s0 = ?m36 # ?m20 # ?tail" and t0: "trace ?s0 = []"
    by (simp_all add: port_on_plan2_def port0_def)
  \<comment> \<open>validation against the models\<close>
  obtain s1 where r1: "ZUp_VerifySetVA ?e1 [] ?s0 = (Inr [], s1)"
    and w1: "writes (trace s1) = [ADR 1, '':MDL?;'']" and i1: "incoming s1 = ?m20 # ?tail"
    using VerifySetVA_run[OF i0 plan2_replies(1,2,3) plan2_models(1,2,3,4,5), of ?e1 "[]"]
    by (cases "ZUp_VerifySetVA ?e1 [] ?s0") (simp add: t0)
  obtain s2 where r2: "ZUp_VerifySetVA ?e2 [] s1 = (Inr [], s2)"
    and w2: "writes (trace s2) = [ADR 1, '':MDL?;'', ADR 2, '':MDL?;'']" and i2: "incoming s2 = ?tail"
    using VerifySetVA_run[OF i1 plan2_replies(5,6,7) plan2_models(6,7,8,9,10), of ?e2 "[]"]
    by (cases "ZUp_VerifySetVA ?e2 [] s1") (simp add: w1)
  have vs: "ZUps_VerifySetVAs plan2 ?s0 = (Inr (), s2)"
    by (simp add: ZUps_VerifySetVAs_def plan2_def bnd_def r1 r2 ret_def)
  \<comment> \<open>programming and energizing\<close>
  obtain s3 where r3: "ZUps_PowerVAs plan2 s2 = (Inr (), s3)"
    and w3: "writes (trace s3) = writes (trace s2) @
     ['':ADR01;'', '':RMT2;'', '':DCL;'', '':AST0;'', '':FLD2;'', '':SRV0;'', '':SRT0;'', '':SRF0;'',
      '':MDL?;'', '':UVP00.0;'', '':OVP40.0;'', '':CUR!;'', '':CUR1.000;'', '':VOL03.30;'',
      '':OUT1;'', '':CUR1.000;'', '':OVP03.6;'', '':UVP03.0;'',
      '':ADR02;'', '':RMT2;'', '':DCL;'', '':AST0;'', '':FLD1;'', '':SRV0;'', '':SRT0;'', '':SRF0;'',
      '':MDL?;'', '':UVP00.0;'', '':OVP24.0;'', '':CUR!;'', '':VOL05.000;'',
      '':OUT1;'', '':CUR01.000;'', '':OVP05.5;'', '':UVP04.5;'']"
    and i3: "incoming s3 = ?replies"
    using plan2_power_run[OF i2]
    by (cases "ZUps_PowerVAs plan2 s2") simp
  \<comment> \<open>verification of the readbacks\<close>
  let ?s4 = "s3\<lparr>trace := trace s3 @ [Sleep 1000]\<rparr>"
  have i4: "incoming ?s4 = (''AV03.30'' @ CRLF) # (''AA0.100'' @ CRLF) #
                           [''AV05.000'' @ CRLF, ''AA00.200'' @ CRLF]"
    using i3 by simp
  obtain s5 where r5: "ZUp_VerifyActualVA ?e1 [] ?s4 = (Inr [], s5)"
    and w5: "writes (trace s5) = writes (trace s3) @ [ADR 1, '':VOL?;'', '':CUR?;'']"
    and i5: "incoming s5 = (''AV05.000'' @ CRLF) # (''AA00.200'' @ CRLF) # []"
    using VerifyActualVA_run[OF i4 plan2_readbacks(1,2), of ?e1 "[]"]
    by (cases "ZUp_VerifyActualVA ?e1 [] ?s4") simp
  obtain s6 where r6: "ZUp_VerifyActualVA ?e2 [] s5 = (Inr [], s6)"
    and w6: "writes (trace s6) = writes (trace s5) @ [ADR 2, '':VOL?;'', '':CUR?;'']"
    using VerifyActualVA_run[OF i5 plan2_readbacks(3,4), of ?e2 "[]"]
    by (cases "ZUp_VerifyActualVA ?e2 [] s5") simp
  have va: "ZUps_VerifyActualVAs plan2 s3 = (Inr (), s6)"
    by (simp add: ZUps_VerifyActualVAs_def plan2_def seq_def bnd_def sleep_def r5 r6 ret_def)
  have whole: "ZUps_ON plan2 ''COM1'' 9600 port_on_plan2 = serial_close s6"
    unfolding pre by (simp add: seq_def bnd_def vs r3 va)
  show ?thesis
    unfolding whole using w2 w3 w5 w6
    by (simp add: serial_close_def ADR_1 ADR_2)
qed

theorem power_on_goes_supply_by_supply_witness:
  "fst (ZUps_PowerVAs plan2 port_plan2) = Inr () \<and>
   (\<exists>ms. length ms = length plan2 \<and>
         writes (trace (snd (ZUps_PowerVAs plan2 port_plan2))) =
           writes (trace port_plan2) @
           concat (map (\<lambda>(Z, MDL, r). power_block Z MDL r) (zip plan2 ms))) \<and>
   fst (ZUps_ON plan2 ''COM1'' 9600 port_on_plan2) = Inr () \<and>
   (\<exists>before ms after. length ms = length plan2 \<and>
         writes (trace (snd (ZUps_ON plan2 ''COM1'' 9600 port_on_plan2))) =
           writes (trace port_on_plan2) @ before @
           concat (map (\<lambda>(Z, MDL, r). power_block Z MDL r) (zip plan2 ms)) @ after)"
proof -
  have inc: "incoming port_plan2 =
     (''Nemic-Lambda ZUP(36V-6A)'' @ CRLF) # (''SA0.500'' @ CRLF) #
     (''Nemic-Lambda ZUP(20V-10A)'' @ CRLF) # (''SA03.000'' @ CRLF) # []"
    by (simp add: port_plan2_def port0_def)
  have a: "fst (ZUps_PowerVAs plan2 port_plan2) = Inr ()"
    using plan2_power_run[OF inc] by simp
  have b: "fst (ZUps_ON plan2 ''COM1'' 9600 port_on_plan2) = Inr ()"
    using plan2_on_run by simp
  show ?thesis
    using power_on_goes_supply_by_supply[of plan2 port_plan2 "''COM1''" 9600]
      power_on_goes_supply_by_supply[of plan2 port_on_plan2 "''COM1''" 9600] a b
    by blast
qed

theorem power_on_interleaves_phases_counterexample:
  "length plan2 = 2 \<and>
   fst (ZUps_ON plan2 ''COM1'' 9600 port_on_plan2) = Inr () \<and>
   writes (trace (snd (ZUps_ON plan2 ''COM1'' 9600 port_on_plan2))) ! 17 = '':VOL03.30;'' \<and>
   writes (trace (snd (ZUps_ON plan2 ''COM1'' 9600 port_on_plan2))) ! 18 = '':OUT1;'' \<and>
   writes (trace (snd (ZUps_ON plan2 ''COM1'' 9600 port_on_plan2))) ! 21 = '':UVP03.0;'' \<and>
   writes (trace (snd (ZUps_ON plan2 ''COM1'' 9600 port_on_plan2))) ! 22 = '':ADR02;'' \<and>
   writes (trace (snd (ZUps_ON plan2 ''COM1'' 9600 port_on_plan2))) ! 31 = '':UVP00.0;'' \<and>
   writes (trace (snd (ZUps_ON plan2 ''COM1'' 9600 port_on_plan2))) ! 32 = '':OVP24.0;'' \<and>
   writes (trace (snd (ZUps_ON plan2 ''COM1'' 9600 port_on_plan2))) ! 35 = '':OUT1;'' \<and>
   writes (trace (snd (ZUps_ON plan2 ''COM1'' 9600 port_on_plan2))) =
     ['':ADR01;'', '':MDL?;'', '':ADR02;'', '':MDL?;'',
      '':ADR01;'', '':RMT2;'', '':DCL;'', '':AST0;'', '':FLD2;'', '':SRV0;'', '':SRT0;'', '':SRF0;'',
      '':MDL?;'', '':UVP00.0;'', '':OVP40.0;'', '':CUR!;'', '':CUR1.000;'', '':VOL03.30;'',
      '':OUT1;'', '':CUR1.000;'', '':OVP03.6;'', '':UVP03.0;'',
      '':ADR02;'', '':RMT2;'', '':DCL;'', '':AST0;'', '':FLD1;'', '':SRV0;'', '':SRT0;'', '':SRF0;'',
      '':MDL?;'', '':UVP00.0;'', '':OVP24.0;'', '':CUR!;'', '':VOL05.000;'',
      '':OUT1;'', '':CUR01.000;'', '':OVP05.5;'', '':UVP04.5;'',
      '':ADR01;'', '':VOL?;'', '':CUR?;'', '':ADR02;'', '':VOL?;'', '':CUR?;'']"
  using plan2_on_run by (simp add: plan2_def)

section \<open>The numeric formatter\<close>

lemma digit_val_range: "digit_val c = Some d \<longleftrightarrow> 48 \<le> (of_char c :: nat) \<and> of_char c \<le> (57::nat) \<and> d = of_char c - 48"
  by (auto simp: digit_val_def Let_def)

lemma digit_char_val: "d < 10 \<Longrightarrow> digit_val (digit_char d) = Some d"
proof -
  assume "d < 10"
  then have "d \<in> {0, 1, 2, 3, 4, 5, 6, 7, 8, 9}" by auto
  then show ?thesis
    by (elim insertE) (simp_all add: digit_char_def digit_val_def)
qed

lemma digit_not_special:
  assumes "digit_val c = Some d"
  shows "c \<noteq> CHR ''.''" "c \<noteq> CHR ''-''" "c \<noteq> CHR ''+''" "\<not> is_space c"
  using assms by (auto simp: digit_val_range is_space_def)

lemma digits_val_snoc:
  "digits_val (s @ [c]) a =
     (case digits_val s a of None \<Rightarrow> None
      | Some b \<Rightarrow> (case digit_val c of None \<Rightarrow> None | Some d \<Rightarrow> Some (10 * b + d)))"
  by (induction s arbitrary: a) (auto split: option.splits)

lemma digits_val_show_nat: "digits_val (show_nat n) 0 = Some n"
proof (induction n rule: show_nat.induct)
  case (1 n)
  show ?case
  proof (cases "n < 10")
    case True
    then show ?thesis
      by (subst show_nat.simps) (simp add: digit_char_val)
  next
    case False
    then have "digits_val (show_nat (n div 10)) 0 = Some (n div 10)"
      using 1 by simp
    then show ?thesis
      using False
      by (subst show_nat.simps) (simp add: digits_val_snoc digit_char_val)
  qed
qed

lemma digits_val_zeros: "digits_val (replicate k CHR ''0'' @ s) 0 = digits_val s 0"
  by (induction k) (simp_all add: digit_val_def)

lemma show_nat_digits: "c \<in> set (show_nat n) \<Longrightarrow> \<exists>d. digit_val c = Some d"
proof (induction n rule: show_nat.induct)
  case (1 n)
  show ?case
  proof (cases "n < 10")
    case True
    then show ?thesis
      using "1.prems" by (subst (asm) show_nat.simps) (auto simp: digit_char_val)
  next
    case False
    then show ?thesis
      using "1.prems" "1.IH"
      by (subst (asm) show_nat.simps) (auto simp: digit_char_val)
  qed
qed

lemma show_nat_nonempty: "show_nat n \<noteq> []"
  by (subst show_nat.simps) simp

lemma length_show_nat: "n < 10 ^ k \<Longrightarrow> 0 < k \<Longrightarrow> length (show_nat n) \<le> k"
proof (induction n arbitrary: k rule: show_nat.induct)
  case (1 n)
  show ?case
  proof (cases "n < 10")
    case True
    then show ?thesis using "1.prems" by (subst show_nat.simps) simp
  next
    case False
    obtain j where k: "k = Suc j" using "1.prems" by (cases k) auto
    have j: "0 < j" using False "1.prems" k by (cases j) auto
    have "n div 10 < 10 ^ j"
      using "1.prems" k by (simp add: less_mult_imp_div_less mult.commute)
    then have "length (show_nat (n div 10)) \<le> j"
      using "1.IH"[OF False _ j] by simp
    then show ?thesis
      using False k by (subst show_nat.simps) simp
  qed
qed

lemma zero_fill_rjust: "zero_fill s n = rjust n CHR ''0'' s"
proof (induction s n rule: zero_fill.induct)
  case (1 valFormat n)
  show ?case
  proof (cases "length valFormat < n")
    case True
    then have "n - length valFormat = Suc (n - Suc (length valFormat))" by simp
    then show ?thesis
      using True 1
      by (subst zero_fill.simps) (simp add: rjust_def replicate_app_Cons_same)
  next
    case False
    then show ?thesis by (subst zero_fill.simps) (simp add: rjust_def)
  qed
qed

lemma round_half_even_int: "round_half_even (of_int n) = n"
  by (simp add: round_half_even_def)

lemma round_half_even_nonneg: "0 \<le> x \<Longrightarrow> 0 \<le> round_half_even x"
  by (auto simp: round_half_even_def Let_def)

lemma py_round_nonneg: "0 \<le> v \<Longrightarrow> 0 \<le> py_round v T"
  by (simp add: py_round_def round_half_even_nonneg)

lemma py_round_scaled: "py_round v T * 10 ^ T = of_int (round_half_even (v * 10 ^ T))"
  by (simp add: py_round_def)

lemma fixed_py_round: "0 \<le> v \<Longrightarrow> fixed T (py_round v T) = fixed T v"
  using py_round_nonneg[of v T]
  by (simp add: fixed_def py_round_scaled round_half_even_int)

text \<open>The rendering of a non-negative value, in terms of its scaled rounding.\<close>

lemma fixed_nonneg:
  assumes "0 \<le> v" "0 < T"
  shows "fixed T v =
           show_nat (nat (round_half_even (v * 10 ^ T)) div 10 ^ T) @
           CHR ''.'' # replicate (T - length (show_nat (nat (round_half_even (v * 10 ^ T)) mod 10 ^ T))) CHR ''0'' @
                       show_nat (nat (round_half_even (v * 10 ^ T)) mod 10 ^ T)"
  using assms by (simp add: fixed_def Let_def rjust_def)

lemma length_frac:
  "0 < T \<Longrightarrow> length (replicate (T - length (show_nat (n mod 10 ^ T))) CHR ''0'' @ show_nat (n mod 10 ^ T)) = T"
  using length_show_nat[of "n mod 10 ^ T" T] by simp

lemma length_fixed_lower: "0 \<le> v \<Longrightarrow> 0 < T \<Longrightarrow> T + 2 \<le> length (fixed T v)"
  using show_nat_nonempty[of "nat (round_half_even (v * 10 ^ T)) div 10 ^ T"]
    length_frac[of T "nat (round_half_even (v * 10 ^ T))"]
  by (simp add: fixed_nonneg del: length_append length_replicate)
     (simp add: Suc_le_eq)

lemma length_fixed_upper:
  assumes "0 \<le> v" "0 < T" "0 < L" "round_half_even (v * 10 ^ T) < 10 ^ (L + T)"
  shows "length (fixed T v) \<le> L + T + 1"
proof -
  let ?n = "nat (round_half_even (v * 10 ^ T))"
  have "?n < 10 ^ (L + T)"
    using assms(4) round_half_even_nonneg[of "v * 10 ^ T"] assms(1)
    by (simp add: nat_less_iff)
  then have "?n div 10 ^ T < 10 ^ L"
    by (simp add: less_mult_imp_div_less power_add)
  then have "length (show_nat (?n div 10 ^ T)) \<le> L"
    using assms(3) by (rule length_show_nat)
  then show ?thesis
    using length_frac[OF assms(2), of ?n]
    by (simp add: fixed_nonneg[OF assms(1,2)] del: length_replicate)
qed

lemma Format_rjust:
  assumes "0 \<le> v" "0 < T" "L \<le> T + 2"
  shows "Format v L T = rjust (L + T + 1) CHR ''0'' (fixed T v)"
proof -
  have "L \<le> length (fixed T v)"
    using length_fixed_lower[OF assms(1,2)] assms(3) by simp
  then have "rjust L CHR '' '' (fixed T v) = fixed T v"
    by (simp add: rjust_def)
  then show ?thesis
    by (simp add: Format_def zero_fill_rjust fixed_py_round[OF assms(1)])
qed

lemma strip_digits:
  assumes "s \<noteq> []" "\<exists>d. digit_val (hd s) = Some d" "\<exists>d. digit_val (last s) = Some d"
  shows "strip s = s"
proof -
  have a: "dropWhile is_space s = s"
    using assms(1,2) digit_not_special(4) by (cases s) auto
  have "dropWhile is_space (rev s) = rev s"
    using assms(1,3) digit_not_special(4) by (cases "rev s") (auto simp: last_rev hd_rev)
  then show ?thesis by (simp add: strip_def a)
qed

lemma py_float_plain:
  assumes "strip s = s" "s \<noteq> []" "hd s \<noteq> CHR ''-''" "hd s \<noteq> CHR ''+''"
    and "takeWhile (\<lambda>c. c \<noteq> CHR ''.'') s = ip" "drop (Suc (length ip)) s = fp" "ip \<noteq> []"
    and "digits_val ip 0 = Some a" "digits_val fp 0 = Some b"
  shows "py_float s = Some (of_nat a + of_nat b / 10 ^ length fp)"
  by (simp add: py_float_def Let_def assms)

text \<open>Reading back a rendering \<open>zeros, integer digits, point, T decimals\<close>.\<close>

lemma py_float_rendering:
  assumes T: "0 < T" and len: "length (show_nat f) \<le> T"
  shows "py_float (replicate k CHR ''0'' @ show_nat i @
                   CHR ''.'' # replicate (T - length (show_nat f)) CHR ''0'' @ show_nat f) =
         Some (of_nat i + of_nat f / 10 ^ T)"
proof -
  define ip where "ip = replicate k CHR ''0'' @ show_nat i"
  define fp where "fp = replicate (T - length (show_nat f)) CHR ''0'' @ show_nat f"
  define s where "s = ip @ CHR ''.'' # fp"
  have zero: "digit_val CHR ''0'' = Some 0"
    by (simp add: digit_val_def)
  have ipd: "\<exists>d. digit_val c = Some d" if "c \<in> set ip" for c
    using that show_nat_digits[of c i] zero by (auto simp: ip_def)
  have fpd: "\<exists>d. digit_val c = Some d" if "c \<in> set fp" for c
    using that show_nat_digits[of c f] zero by (auto simp: fp_def)
  have ipne: "ip \<noteq> []" and fpne: "fp \<noteq> []"
    using show_nat_nonempty by (simp_all add: ip_def fp_def)
  have sne: "s \<noteq> []" by (simp add: s_def)
  have hd_s: "hd s = hd ip"
    unfolding s_def by (rule hd_append2[OF ipne])
  have "last s = last (CHR ''.'' # fp)"
    unfolding s_def by (rule last_appendR) simp
  also have "\<dots> = last fp"
    by (rule last_ConsR[OF fpne])
  finally have last_s: "last s = last fp" .
  have hdd: "\<exists>d. digit_val (hd s) = Some d"
    unfolding hd_s using ipd[of "hd ip"] ipne hd_in_set by blast
  have lastd: "\<exists>d. digit_val (last s) = Some d"
    unfolding last_s using fpd[of "last fp"] fpne last_in_set by blast
  have st: "strip s = s"
    using sne hdd lastd by (rule strip_digits)
  have nosign: "hd s \<noteq> CHR ''-''" "hd s \<noteq> CHR ''+''"
    using hdd digit_not_special by blast+
  have tw: "takeWhile (\<lambda>c. c \<noteq> CHR ''.'') s = ip"
  proof -
    have "\<And>c. c \<in> set ip \<Longrightarrow> c \<noteq> CHR ''.''"
      using ipd digit_not_special(1) by blast
    then have "takeWhile (\<lambda>c. c \<noteq> CHR ''.'') (ip @ CHR ''.'' # fp) =
               ip @ takeWhile (\<lambda>c. c \<noteq> CHR ''.'') (CHR ''.'' # fp)"
      by (rule takeWhile_append2)
    then show ?thesis by (simp add: s_def)
  qed
  have dr: "drop (Suc (length ip)) s = fp"
    by (simp add: s_def)
  have vi: "digits_val ip 0 = Some i"
    unfolding ip_def by (simp only: digits_val_zeros digits_val_show_nat)
  have vf: "digits_val fp 0 = Some f"
    unfolding fp_def by (simp only: digits_val_zeros digits_val_show_nat)
  have lf: "length fp = T" using len by (simp add: fp_def)
  have "py_float s = Some (of_nat i + of_nat f / 10 ^ length fp)"
    using st sne nosign tw dr ipne vi vf by (rule py_float_plain)
  then have "py_float s = Some (of_nat i + of_nat f / 10 ^ T)"
    unfolding lf .
  then show ?thesis
    by (simp add: s_def ip_def fp_def)
qed

lemma split_scaled:
  "0 < d \<Longrightarrow> (of_nat (n div d) :: rat) + of_nat (n mod d) / of_nat d = of_nat n / of_nat d"
proof -
  assume d: "0 < d"
  have "(of_nat n :: rat) = of_nat (n div d) * of_nat d + of_nat (n mod d)"
    by (metis div_mult_mod_eq of_nat_add of_nat_mult)
  then show ?thesis using d by (simp add: field_simps)
qed

lemma py_float_fixed:
  assumes "0 \<le> v" "0 < T"
  shows "py_float (rjust W CHR ''0'' (fixed T v)) = Some (py_round v T)"
proof -
  let ?n = "nat (round_half_even (v * 10 ^ T))"
  let ?i = "?n div 10 ^ T" and ?f = "?n mod 10 ^ T"
  have len: "length (show_nat ?f) \<le> T"
    using assms(2) by (intro length_show_nat) simp_all
  have "rjust W CHR ''0'' (fixed T v) =
        replicate (W - length (fixed T v)) CHR ''0'' @ show_nat ?i @
        CHR ''.'' # replicate (T - length (show_nat ?f)) CHR ''0'' @ show_nat ?f"
    by (simp add: rjust_def fixed_nonneg[OF assms])
  then have "py_float (rjust W CHR ''0'' (fixed T v)) = Some (of_nat ?i + of_nat ?f / 10 ^ T)"
    using py_float_rendering[OF assms(2) len] by simp
  also have "of_nat ?i + of_nat ?f / 10 ^ T = (of_nat ?n :: rat) / 10 ^ T"
    using split_scaled[of "10 ^ T" ?n] by simp
  also have "(of_nat ?n :: rat) = of_int (round_half_even (v * 10 ^ T))"
    using round_half_even_nonneg[of "v * 10 ^ T"] assms(1) by simp
  finally show ?thesis by (simp add: py_round_def)
qed

lemma FORMATS_cases:
  assumes "FORMATS (L, T) = Some f"
  shows "0 < L \<and> 0 < T \<and> L \<le> T + 2 \<and> f = \<lparr>width = L + T + 1, prec = T\<rparr>"
  using assms by (auto simp: FORMATS_def split: if_splits)

text \<open>
  C8, as the code has it. For every \<open>(L, T)\<close> of the format table and every non-negative
  value whose rounding to \<open>T\<close> decimals stays below \<open>10 ^ L\<close>, the output of \<open>_Format\<close> has
  length \<open>L + T + 1\<close>, is the plain rendering with zeros in front, and is read back by
  \<open>float\<close> as the value rounded to \<open>T\<close> decimals with ties going to the even neighbour;
  the format string of \<open>Zup.FORMATS\<close> for \<open>(L, T)\<close> gives the same string; and
  \<open>_Format(0.2468, 2, 1)\<close> is \<open>00.2\<close>.
\<close>

theorem format_width_padding_and_reading:
  assumes "FORMATS (L, T) = Some f" and "0 \<le> v"
    and "round_half_even (v * 10 ^ T) < 10 ^ (L + T)"
  shows "length (Format v L T) = L + T + 1 \<and>
         Format v L T = replicate (L + T + 1 - length (fixed T v)) CHR ''0'' @ fixed T v \<and>
         py_float (Format v L T) = Some (py_round v T) \<and>
         apply_format f v = Format v L T \<and>
         Format (2468 / 10000) 2 1 = ''00.2''"
proof -
  from FORMATS_cases[OF assms(1)]
  have L: "0 < L" and T: "0 < T" and LT: "L \<le> T + 2" and f: "f = \<lparr>width = L + T + 1, prec = T\<rparr>"
    by auto
  have F: "Format v L T = rjust (L + T + 1) CHR ''0'' (fixed T v)"
    using Format_rjust[OF assms(2) T LT] .
  have up: "length (fixed T v) \<le> L + T + 1"
    using length_fixed_upper[OF assms(2) T L assms(3)] .
  have 1: "length (Format v L T) = L + T + 1"
    unfolding F using up by (simp add: rjust_def)
  have 2: "Format v L T = replicate (L + T + 1 - length (fixed T v)) CHR ''0'' @ fixed T v"
    unfolding F by (simp add: rjust_def)
  have 3: "py_float (Format v L T) = Some (py_round v T)"
    unfolding F by (rule py_float_fixed[OF assms(2) T])
  have 4: "apply_format f v = Format v L T"
    unfolding F by (simp add: apply_format_def f)
  have 5: "Format (2468 / 10000) 2 1 = ''00.2''"
    by code_simp
  show ?thesis using 1 2 3 4 5 by blast
qed

theorem format_width_padding_and_reading_witness:
  "FORMATS (2, 1) = Some \<lparr>width = 4, prec = 1\<rparr> \<and> (0 :: rat) \<le> 1 / 4 \<and>
   round_half_even (1 / 4 * 10 ^ 1) = 2 \<and>
   length (Format (1 / 4) 2 1) = 2 + 1 + 1 \<and>
   py_float (Format (1 / 4) 2 1) = Some (py_round (1 / 4) 1) \<and>
   py_round (1 / 4) 1 = 1 / 5 \<and>
   apply_format \<lparr>width = 4, prec = 1\<rparr> (1 / 4) = Format (1 / 4) 2 1"
proof -
  have a: "FORMATS (2, 1) = Some \<lparr>width = 4, prec = 1\<rparr>"
    by (simp add: FORMATS_def)
  have q: "(0 :: rat) \<le> 1 / 4"
    by simp
  have b: "round_half_even (1 / 4 * 10 ^ 1) = 2"
    by code_simp
  have c: "py_round (1 / 4) 1 = 1 / 5"
    by code_simp
  have d: "round_half_even (1 / 4 * 10 ^ 1) < 10 ^ (2 + 1)"
    unfolding b by simp
  show ?thesis
    using format_width_padding_and_reading[OF a q d] a q b c by blast
qed

theorem format_carry_and_ties_counterexample:
  "FORMATS (1, 2) = Some \<lparr>width = 4, prec = 2\<rparr> \<and>
   \<lfloor>2559 / 256 :: rat\<rfloor> = 9 \<and>
   Format (2559 / 256) 1 2 = ''10.00'' \<and>
   apply_format \<lparr>width = 4, prec = 2\<rparr> (2559 / 256) = ''10.00'' \<and>
   length (Format (2559 / 256) 1 2) \<noteq> 1 + 2 + 1 \<and>
   FORMATS (2, 1) = Some \<lparr>width = 4, prec = 1\<rparr> \<and>
   Format (1 / 4) 2 1 = ''00.2'' \<and>
   apply_format \<lparr>width = 4, prec = 1\<rparr> (1 / 4) = ''00.2'' \<and>
   py_float (Format (1 / 4) 2 1) = Some (2 / 10) \<and>
   of_int (round (1 / 4 * 10 ^ 1 :: rat)) / 10 ^ 1 = (3 / 10 :: rat)"
proof -
  have a: "FORMATS (1, 2) = Some \<lparr>width = 4, prec = 2\<rparr>" "FORMATS (2, 1) = Some \<lparr>width = 4, prec = 1\<rparr>"
    by (simp_all add: FORMATS_def)
  have b: "\<lfloor>2559 / 256 :: rat\<rfloor> = 9" by (simp add: floor_eq_iff)
  have c: "Format (2559 / 256) 1 2 = ''10.00''" "Format (1 / 4) 2 1 = ''00.2''"
    "apply_format \<lparr>width = 4, prec = 2\<rparr> (2559 / 256) = ''10.00''"
    "apply_format \<lparr>width = 4, prec = 1\<rparr> (1 / 4) = ''00.2''"
    by code_simp+
  have d: "py_float ''00.2'' = Some (2 / 10)" by code_simp
  have e: "of_int (round (1 / 4 * 10 ^ 1 :: rat)) / 10 ^ 1 = (3 / 10 :: rat)"
    by (simp add: round_def)
  show ?thesis using a b e unfolding c d by simp
qed

end
